(* ===== verification/Prelude.thy ===== *)
theory Prelude
  imports Complex_Main
begin

text \<open>
  Shared vocabulary of the Gutout development.  Tensors of the PyTorch/NumPy code are
  nested lists of reals, outermost dimension first: a spatial map (\<open>fmap\<close>) is a list of
  rows, a channel tensor (\<open>tensor\<close>, also an \<open>image\<close>) is a list of channels, each a
  spatial map.  Python floats are idealised as \<open>real\<close>.  The theory provides the
  element-wise combinators the code's array expressions use (\<open>map2d\<close> for a NumPy
  ufunc on one array, \<open>zip2d\<close> for one on two arrays), the shape predicate \<open>is_mat\<close>,
  the bool-valued quantifier \<open>all2d\<close> over the entries of a map, and the reductions
  \<open>list_max\<close>, \<open>mean\<close>, \<open>argmax\<close> and \<open>count_matches\<close> (\<open>np.max\<close>, \<open>np.mean\<close>,
  \<open>torch.max(_, 1)[1]\<close>, \<open>(a == b).sum()\<close>), with the lemmas the components share.
  \<open>py_error\<close> names the Python exceptions the modelled code can raise; a fallible
  operation returns \<open>py_error + 'a\<close>.
\<close>

named_theorems grid_simps "shape and range facts of the grid combinators"

text \<open>Exceptions the script can raise, as values of an error sum.\<close>

datatype py_error = IndexError | ValueError | ZeroDivisionError | UnboundLocalError | RuntimeError

type_synonym fmap = "real list list"
type_synonym tensor = "real list list list"
type_synonym image = "real list list list"

definition map2d :: "('a \<Rightarrow> 'b) \<Rightarrow> 'a list list \<Rightarrow> 'b list list" where
  "map2d f m = map (map f) m"

definition zip2d :: "('a \<Rightarrow> 'b \<Rightarrow> 'c) \<Rightarrow> 'a list list \<Rightarrow> 'b list list \<Rightarrow> 'c list list" where
  "zip2d f a b = map2 (map2 f) a b"

definition is_mat :: "nat \<Rightarrow> nat \<Rightarrow> 'a list list \<Rightarrow> bool" where
  "is_mat h w m \<longleftrightarrow> length m = h \<and> list_all (\<lambda>r. length r = w) m"

definition is_tensor :: "nat \<Rightarrow> nat \<Rightarrow> nat \<Rightarrow> 'a list list list \<Rightarrow> bool" where
  "is_tensor c h w t \<longleftrightarrow> length t = c \<and> list_all (is_mat h w) t"

definition all2d :: "('a \<Rightarrow> bool) \<Rightarrow> 'a list list \<Rightarrow> bool" where
  "all2d P m \<longleftrightarrow> list_all (list_all P) m"

fun list_max :: "real list \<Rightarrow> real" where
  "list_max [] = 0"
| "list_max (x # xs) = (if xs = [] then x else max x (list_max xs))"

definition mean :: "real list \<Rightarrow> real" where
  "mean xs = sum_list xs / real (length xs)"

text \<open>
  A Python float that may be NaN: \<open>None\<close> is NaN, \<open>Some x\<close> the number \<open>x\<close>;
  addition propagates NaN.
\<close>

type_synonym pyfloat = "real option"

fun fadd :: "pyfloat \<Rightarrow> pyfloat \<Rightarrow> pyfloat" where
  "fadd (Some a) (Some b) = Some (a + b)"
| "fadd _ _ = None"

fun first_index :: "('a \<Rightarrow> bool) \<Rightarrow> 'a list \<Rightarrow> nat" where
  "first_index P [] = 0"
| "first_index P (x # xs) = (if P x then 0 else Suc (first_index P xs))"

definition argmax :: "real list \<Rightarrow> nat" where
  "argmax xs = first_index (\<lambda>x. x = list_max xs) xs"

definition count_matches :: "nat list \<Rightarrow> nat list \<Rightarrow> nat" where
  "count_matches xs ys = length (filter (\<lambda>(a, b). a = b) (zip xs ys))"

subsection \<open>Shapes\<close>

lemma all2d_iff: "all2d P m \<longleftrightarrow> (\<forall>r\<in>set m. \<forall>x\<in>set r. P x)"
  by (simp add: all2d_def list_all_iff)

lemma is_mat_iff: "is_mat h w m \<longleftrightarrow> length m = h \<and> (\<forall>r\<in>set m. length r = w)"
  by (simp add: is_mat_def list_all_iff)

lemma is_mat_map2d [simp, grid_simps]: "is_mat h w (map2d f m) = is_mat h w m"
  by (simp add: is_mat_iff map2d_def)

lemma is_mat_row: "is_mat h w m \<Longrightarrow> i < h \<Longrightarrow> length (m ! i) = w"
  by (simp add: is_mat_iff)

lemma is_mat_lengths [grid_simps]:
  "is_mat h w m \<Longrightarrow> length m = h" "is_mat h w m \<Longrightarrow> r \<in> set m \<Longrightarrow> length r = w"
  by (simp_all add: is_mat_iff)

lemma is_tensor_iff: "is_tensor c h w t \<longleftrightarrow> length t = c \<and> (\<forall>a\<in>set t. is_mat h w a)"
  by (simp add: is_tensor_def list_all_iff)

lemma mat_eqI:
  assumes "is_mat h w a" and "is_mat h w b"
    and "\<And>i j. i < h \<Longrightarrow> j < w \<Longrightarrow> a ! i ! j = b ! i ! j"
  shows "a = b"
proof (rule nth_equalityI)
  show "length a = length b" using assms(1,2) by (simp add: is_mat_iff)
next
  fix i assume "i < length a"
  with assms(1) have i: "i < h" by (simp add: is_mat_iff)
  show "a ! i = b ! i"
  proof (rule nth_equalityI)
    show "length (a ! i) = length (b ! i)" using assms(1,2) i by (simp add: is_mat_row)
  next
    fix j assume "j < length (a ! i)"
    with assms(1) i have "j < w" by (simp add: is_mat_row)
    with i show "a ! i ! j = b ! i ! j" by (rule assms(3))
  qed
qed

lemma all2d_nth: "all2d P m \<Longrightarrow> i < length m \<Longrightarrow> j < length (m ! i) \<Longrightarrow> P (m ! i ! j)"
  by (meson all2d_iff nth_mem)

lemma all2d_mono: "all2d P m \<Longrightarrow> (\<And>x. P x \<Longrightarrow> Q x) \<Longrightarrow> all2d Q m"
  by (auto simp: all2d_iff)

lemma all2d_Nil [simp]: "all2d P []"
  by (simp add: all2d_def)

lemma all2d_Cons [simp]: "all2d P (r # m) \<longleftrightarrow> list_all P r \<and> all2d P m"
  by (simp add: all2d_def)

lemma all2d_True [simp]: "all2d (\<lambda>_. True) m"
  by (simp add: all2d_iff)

lemma all2d_map2d [simp, grid_simps]: "all2d P (map2d f m) = all2d (\<lambda>x. P (f x)) m"
  by (simp add: map2d_def all2d_iff)

lemma map2d_map2d [simp]: "map2d f (map2d g m) = map2d (\<lambda>x. f (g x)) m"
  by (simp add: map2d_def)

lemma length_map2d [simp]: "length (map2d f m) = length m"
  by (simp add: map2d_def)

lemma length_map2d_nth [simp]: "i < length m \<Longrightarrow> length (map2d f m ! i) = length (m ! i)"
  by (simp add: map2d_def)

lemma map2d_cong: "all2d (\<lambda>x. f x = g x) m \<Longrightarrow> map2d f m = map2d g m"
  by (simp add: map2d_def all2d_iff)

lemma is_mat_zip2d [grid_simps]:
  "is_mat h w a \<Longrightarrow> is_mat h w b \<Longrightarrow> is_mat h w (zip2d f a b)"
  by (auto simp: is_mat_iff zip2d_def set_zip)

lemma all2d_zip2d [grid_simps]:
  "(\<And>x y. P (f x y)) \<Longrightarrow> all2d P (zip2d f a b)"
  by (auto simp: zip2d_def set_zip all2d_iff)

lemma zip2d_nth [simp]:
  "i < length a \<Longrightarrow> i < length b \<Longrightarrow> j < length (a ! i) \<Longrightarrow> j < length (b ! i) \<Longrightarrow>
   zip2d f a b ! i ! j = f (a ! i ! j) (b ! i ! j)"
  by (simp add: zip2d_def)

lemma map2d_nth [simp]:
  "i < length m \<Longrightarrow> j < length (m ! i) \<Longrightarrow> map2d f m ! i ! j = f (m ! i ! j)"
  by (simp add: map2d_def)

lemma zip2d_eq_map2d:
  "is_mat h w a \<Longrightarrow> is_mat h w b \<Longrightarrow> all2d (\<lambda>y. y = c) b \<Longrightarrow>
   zip2d f a b = map2d (\<lambda>x. f x c) a"
proof -
  assume a: "is_mat h w a" and b: "is_mat h w b" and c: "all2d (\<lambda>y. y = c) b"
  note all2d_iff [simp]
  have rows: "map2 f r s = map (\<lambda>x. f x c) r"
    if "length r = length s" "\<forall>y\<in>set s. y = c" for r s
    using that by (induction r s rule: list_induct2) auto
  from a b have "length a = length b" by (simp add: is_mat_iff)
  then show ?thesis
    using a b c
  proof (induction a b arbitrary: h rule: list_induct2)
    case (Cons r a s b)
    then have "length r = length s" by (simp add: is_mat_iff)
    with Cons show ?case
      by (simp add: zip2d_def map2d_def rows is_mat_iff)
  qed (simp add: zip2d_def map2d_def)
qed

subsection \<open>Reductions\<close>

lemma list_max_ge: "x \<in> set xs \<Longrightarrow> x \<le> list_max xs"
  by (induction xs) auto

lemma list_max_in: "xs \<noteq> [] \<Longrightarrow> list_max xs \<in> set xs"
  by (induction xs) (auto simp: max_def)

lemma list_max_le: "(\<forall>x\<in>set xs. x \<le> c) \<Longrightarrow> 0 \<le> c \<Longrightarrow> list_max xs \<le> c"
  by (induction xs) auto

lemma list_max_nonneg: "(\<forall>x\<in>set xs. 0 \<le> x) \<Longrightarrow> 0 \<le> list_max xs"
  by (induction xs) (auto simp: max_def)

lemma first_index_less: "\<exists>x\<in>set xs. P x \<Longrightarrow> first_index P xs < length xs"
  by (induction xs) auto

lemma first_index_nth: "\<exists>x\<in>set xs. P x \<Longrightarrow> P (xs ! first_index P xs)"
  by (induction xs) auto

lemma argmax_less: "xs \<noteq> [] \<Longrightarrow> argmax xs < length xs"
  unfolding argmax_def by (rule first_index_less) (use list_max_in in blast)

lemma argmax_is_max: "xs \<noteq> [] \<Longrightarrow> x \<in> set xs \<Longrightarrow> x \<le> xs ! argmax xs"
proof -
  assume ne: "xs \<noteq> []" and x: "x \<in> set xs"
  have "xs ! argmax xs = list_max xs"
    unfolding argmax_def
    by (rule first_index_nth [where P = "\<lambda>y. y = list_max xs"]) (use list_max_in ne in blast)
  with x show ?thesis by (simp add: list_max_ge)
qed

lemma length_filter_implies:
  "(\<And>x. P x \<Longrightarrow> Q x) \<Longrightarrow> length (filter P xs) \<le> length (filter Q xs)"
  by (induction xs) auto

lemma mean_nonneg: "(\<forall>x\<in>set xs. 0 \<le> x) \<Longrightarrow> 0 \<le> mean xs"
  by (simp add: mean_def sum_list_nonneg)

lemma map2_self: "map2 f xs xs = map (\<lambda>x. f x x) xs"
  by (induction xs) auto

lemma count_matches_le: "count_matches xs ys \<le> min (length xs) (length ys)"
proof -
  have "count_matches xs ys \<le> length (zip xs ys)"
    unfolding count_matches_def by (rule length_filter_le)
  then show ?thesis by simp
qed

lemma count_matches_nth:
  "length p = length l \<Longrightarrow>
   count_matches p l = length (filter (\<lambda>j. p ! j = l ! j) [0..<length l])"
proof (induction p l rule: list_induct2)
  case Nil
  then show ?case by (simp add: count_matches_def)
next
  case (Cons x xs y ys)
  have "[0..<length (y # ys)] = 0 # map Suc [0..<length ys]"
    by (simp add: upt_conv_Cons map_Suc_upt del: upt_Suc)
  with Cons.IH show ?case by (simp add: count_matches_def filter_map o_def)
qed

lemma count_matches_Nil [simp]: "count_matches [] ys = 0"
  by (simp add: count_matches_def)

end
