(* ===== verification/Saliency.thy ===== *)
theory Saliency
  imports Prelude
begin

text \<open>
  Saliency Computer (spec section 4.2).  Its code, the Grad-CAM routine of
  \<open>src/gutout/generate_gutout_mask.py\<close> that the training script imports at line 29,
  is not part of the repository's sources, so it is modelled from the spec:
  \<open>channel_weights\<close> averages each gradient channel over its spatial positions
  (the Channel Importance Vector), \<open>cam_accumulate\<close> is the loop
  \<open>for k, w in enumerate(weights): cam += w * activation[k]\<close> started from a zero map
  (\<open>zero_cam\<close>), and \<open>relu_map\<close> is the non-negativity clamp \<open>np.maximum(cam, 0)\<close>.
  The lemmas show that the loop computes the gradient-weighted channel sum entry by entry
  (a refinement of the closed formula \<open>cam_entry\<close>), that the map has the activation's
  spatial shape and no negative entry, and the degenerate and single-channel cases of
  spec section 8.
\<close>

definition channel_weights :: "tensor \<Rightarrow> real list" where
  "channel_weights grads = map (\<lambda>g. mean (concat g)) grads"

fun cam_accumulate :: "real list \<Rightarrow> tensor \<Rightarrow> fmap \<Rightarrow> fmap" where
  "cam_accumulate (w # ws) (a # as) cam =
     cam_accumulate ws as (zip2d (+) cam (map2d (\<lambda>x. w * x) a))"
| "cam_accumulate _ _ cam = cam"

definition zero_cam :: "tensor \<Rightarrow> fmap" where
  "zero_cam act = (case act of [] \<Rightarrow> [] | a # _ \<Rightarrow> map2d (\<lambda>_. 0) a)"

definition relu_map :: "fmap \<Rightarrow> fmap" where
  "relu_map cam = map2d (\<lambda>x. max x 0) cam"

definition saliency_map :: "tensor \<Rightarrow> tensor \<Rightarrow> fmap" where
  "saliency_map act grads =
     relu_map (cam_accumulate (channel_weights grads) act (zero_cam act))"

text \<open>The closed formula: entry \<open>(i, j)\<close> of \<open>\<Sum>\<^sub>k w\<^sub>k \<cdot> A\<^sub>k\<close>.\<close>

definition cam_entry :: "real list \<Rightarrow> tensor \<Rightarrow> nat \<Rightarrow> nat \<Rightarrow> real" where
  "cam_entry ws as i j = sum_list (map2 (\<lambda>w a. w * (a ! i ! j)) ws as)"

subsection \<open>Shape\<close>

lemma cam_accumulate_shape:
  "is_mat h w cam \<Longrightarrow> \<forall>a\<in>set as. is_mat h w a \<Longrightarrow> is_mat h w (cam_accumulate ws as cam)"
  by (induction ws as cam rule: cam_accumulate.induct) (simp_all add: is_mat_zip2d)

lemma zero_cam_shape: "is_tensor (Suc c) h w act \<Longrightarrow> is_mat h w (zero_cam act)"
  by (cases act) (simp_all add: zero_cam_def is_tensor_iff)

lemma zero_cam_entries: "all2d (\<lambda>x. x = 0) (zero_cam act)"
  by (cases act) (simp_all add: zero_cam_def)

lemma saliency_map_shape:
  "is_tensor (Suc c) h w act \<Longrightarrow> is_mat h w (saliency_map act grads)"
  unfolding saliency_map_def relu_map_def
  by (simp add: cam_accumulate_shape zero_cam_shape is_tensor_iff)

subsection \<open>The accumulation loop computes the weighted channel sum\<close>

lemma cam_accumulate_nth:
  "is_mat h w cam \<Longrightarrow> \<forall>a\<in>set as. is_mat h w a \<Longrightarrow> i < h \<Longrightarrow> j < w \<Longrightarrow>
   cam_accumulate ws as cam ! i ! j = cam ! i ! j + cam_entry ws as i j"
proof (induction ws as cam rule: cam_accumulate.induct)
  case (1 v ws a as cam)
  have shp: "is_mat h w (zip2d (+) cam (map2d (\<lambda>x. v * x) a))"
    using "1.prems" by (simp add: is_mat_zip2d)
  from "1.prems" have a: "is_mat h w a" by simp
  have "zip2d (+) cam (map2d (\<lambda>x. v * x) a) ! i ! j = cam ! i ! j + v * a ! i ! j"
    using is_mat_row [OF "1.prems"(1) "1.prems"(3)] is_mat_row [OF a "1.prems"(3)]
      is_mat_lengths(1) [OF "1.prems"(1)] is_mat_lengths(1) [OF a] "1.prems"(3,4)
    by simp
  with "1.IH" [OF shp] "1.prems" show ?case
    by (simp add: cam_entry_def)
qed (simp_all add: cam_entry_def)

lemma saliency_map_nth:
  assumes "is_tensor (Suc c) h w act" and "i < h" and "j < w"
  shows "saliency_map act grads ! i ! j =
           max (cam_entry (channel_weights grads) act i j) 0"
proof -
  have z: "is_mat h w (zero_cam act)" using assms(1) by (rule zero_cam_shape)
  have as: "\<forall>a\<in>set act. is_mat h w a" using assms(1) by (simp add: is_tensor_iff)
  have "zero_cam act ! i ! j = 0"
    using all2d_nth [OF zero_cam_entries] z assms(2,3) by (simp add: is_mat_row is_mat_lengths)
  moreover have "cam_accumulate (channel_weights grads) act (zero_cam act) ! i ! j =
      zero_cam act ! i ! j + cam_entry (channel_weights grads) act i j"
    using z as assms(2,3) by (rule cam_accumulate_nth)
  moreover have "is_mat h w (cam_accumulate (channel_weights grads) act (zero_cam act))"
    using z as by (rule cam_accumulate_shape)
  ultimately show ?thesis
    using assms(2,3) by (simp add: saliency_map_def relu_map_def is_mat_iff)
qed

lemma cam_entry_zero_weights:
  "\<forall>v\<in>set ws. v = 0 \<Longrightarrow> cam_entry ws as i j = 0"
  by (induction ws as rule: list_induct2') (simp_all add: cam_entry_def)

lemma cam_entry_single:
  "k < length ws \<Longrightarrow> k < length as \<Longrightarrow> (\<forall>l<length ws. l \<noteq> k \<longrightarrow> ws ! l = 0) \<Longrightarrow>
   cam_entry ws as i j = ws ! k * (as ! k ! i ! j)"
proof (induction ws as arbitrary: k rule: list_induct2')
  case (4 v ws a as)
  show ?case
  proof (cases k)
    case 0
    have "\<forall>l<length ws. ws ! l = 0"
    proof (intro allI impI)
      fix l assume "l < length ws"
      then have "Suc l < length (v # ws)" by simp
      with "4.prems"(3) 0 have "(v # ws) ! Suc l = 0" by blast
      then show "ws ! l = 0" by simp
    qed
    then have "\<forall>u\<in>set ws. u = 0" by (simp add: all_set_conv_all_nth)
    then have "cam_entry ws as i j = 0" by (rule cam_entry_zero_weights)
    with 0 show ?thesis by (simp add: cam_entry_def)
  next
    case (Suc k')
    have "v = 0" using "4.prems"(3) Suc by auto
    moreover have "cam_entry ws as i j = ws ! k' * (as ! k' ! i ! j)"
      using "4.prems" Suc by (intro "4.IH") auto
    ultimately show ?thesis using Suc by (simp add: cam_entry_def)
  qed
qed simp_all

subsection \<open>Properties of the Saliency Computer\<close>

text \<open>
  after the clamp no entry of the saliency map is negative, whatever the activation
  and gradient (spec section 8, second property).
\<close>

theorem saliency_nonneg: "all2d (\<lambda>x. 0 \<le> x) (saliency_map act grads)"
  by (simp add: saliency_map_def relu_map_def)

text \<open>
  degenerate case.  When every channel weight is zero (a dead layer), the saliency
  map is the all-zero map of the activation's spatial shape, and no error is raised.
\<close>

theorem saliency_zero_weights:
  assumes "is_tensor (Suc c) h w act"
    and "\<forall>v\<in>set (channel_weights grads). v = 0"
  shows "saliency_map act grads = zero_cam act"
proof (rule mat_eqI)
  show "is_mat h w (saliency_map act grads)" using assms(1) by (rule saliency_map_shape)
  show z: "is_mat h w (zero_cam act)" using assms(1) by (rule zero_cam_shape)
  fix i j assume ij: "i < h" "j < w"
  have "zero_cam act ! i ! j = 0"
    using all2d_nth [OF zero_cam_entries] z ij by (simp add: is_mat_row is_mat_lengths)
  with ij show "saliency_map act grads ! i ! j = zero_cam act ! i ! j"
    by (simp add: saliency_map_nth [OF assms(1)] cam_entry_zero_weights [OF assms(2)])
qed

theorem saliency_zero_weights_witness:
  "saliency_map [[[1, -2], [3, 4]], [[5, 6], [-7, 8]]]
                [[[1, -1], [2, -2]], [[0, 0], [0, 0]]] = [[0, 0], [0, 0]]"
proof -
  have "saliency_map [[[1, -2], [3, 4]], [[5, 6], [-7, 8]]]
                [[[1, -1], [2, -2]], [[0, 0], [0, 0]]] =
        zero_cam [[[1, -2], [3, 4]], [[5, 6], [-7, 8]]]"
    by (rule saliency_zero_weights [where c = 1 and h = 2 and w = 2])
       (simp_all add: is_tensor_def is_mat_def channel_weights_def mean_def)
  then show ?thesis by (simp add: zero_cam_def map2d_def)
qed

text \<open>
  end-to-end scenario 1 of spec section 8.  If the gradient gives a non-zero
  weight \<open>v\<close> to exactly one channel \<open>k\<close>, the saliency map is that channel's
  activation scaled by \<open>v\<close>, clamped at zero.
\<close>

theorem saliency_single_channel:
  assumes "is_tensor (Suc c) h w act" and "length grads = length act" and "k < length act"
    and "\<forall>l<length act. l \<noteq> k \<longrightarrow> channel_weights grads ! l = 0"
  shows "saliency_map act grads =
           relu_map (map2d (\<lambda>x. channel_weights grads ! k * x) (act ! k))"
proof (rule mat_eqI)
  show "is_mat h w (saliency_map act grads)" using assms(1) by (rule saliency_map_shape)
  have ak: "is_mat h w (act ! k)"
    using assms(1,3) by (simp add: is_tensor_iff)
  then show "is_mat h w (relu_map (map2d (\<lambda>x. channel_weights grads ! k * x) (act ! k)))"
    by (simp add: relu_map_def)
  fix i j assume ij: "i < h" "j < w"
  have len: "length (channel_weights grads) = length act"
    using assms(2) by (simp add: channel_weights_def)
  have "cam_entry (channel_weights grads) act i j = channel_weights grads ! k * (act ! k ! i ! j)"
    using assms(3,4) len by (intro cam_entry_single) auto
  with ij ak show "saliency_map act grads ! i ! j =
      relu_map (map2d (\<lambda>x. channel_weights grads ! k * x) (act ! k)) ! i ! j"
    by (simp add: saliency_map_nth [OF assms(1)] relu_map_def is_mat_row is_mat_lengths)
qed

theorem saliency_single_channel_witness:
  "saliency_map
     [[[1, 2], [3, 4]], [[-1, 0], [5, 2]], [[0, 0], [1, 1]], [[2, 2], [2, 2]]]
     [[[0, 0], [0, 0]], [[1, 3], [2, 2]], [[0, 0], [0, 0]], [[0, 0], [0, 0]]]
   = [[0, 0], [10, 4]]"
proof -
  let ?A = "[[[1, 2], [3, 4]], [[-1, 0], [5, 2]], [[0, 0], [1, 1]], [[2, 2], [2, 2]]] :: tensor"
  let ?G = "[[[0, 0], [0, 0]], [[1, 3], [2, 2]], [[0, 0], [0, 0]], [[0, 0], [0, 0]]] :: tensor"
  have w: "channel_weights ?G = [0, 2, 0, 0]"
    by (simp add: channel_weights_def mean_def)
  have "saliency_map ?A ?G = relu_map (map2d (\<lambda>x. channel_weights ?G ! 1 * x) (?A ! 1))"
  proof (rule saliency_single_channel [where c = 3 and h = 2 and w = 2])
    show "\<forall>l<length ?A. l \<noteq> 1 \<longrightarrow> channel_weights ?G ! l = 0"
      by (simp add: w less_Suc_eq nth_Cons')
  qed (simp_all add: is_tensor_def is_mat_def)
  then show ?thesis by (simp add: w relu_map_def map2d_def)
qed

end
