(* ===== verification/Resize.thy ===== *)
theory Resize
  imports Prelude
begin

text \<open>
  Bilinear resize of a saliency map to the input image's resolution (spec section 4.3,
  step 1).  The resize is performed inside the imported Grad-CAM module (not under
  \<open>src/\<close>), so it is modelled from the spec, following the coordinate rule of OpenCV's
  \<open>cv2.resize(..., INTER_LINEAR)\<close> that such modules call: output index \<open>j\<close> of \<open>n_out\<close>
  samples the source at \<open>x = (j + 1/2) \<cdot> n_in / n_out - 1/2\<close>, clamped to the first and
  last source sample.  \<open>src_index\<close> computes the two neighbouring source indices and
  the interpolation weight with integer floor division, \<open>resize_row\<close> interpolates one
  row horizontally, \<open>resize_map\<close> interpolates the two horizontally resized source rows
  vertically.  The lemmas: the result always has the requested shape, every output value
  lies in the range of the input values (so a constant map stays constant and a
  non-negative map stays non-negative), and resizing to the same shape is the identity.
\<close>

definition src_index :: "nat \<Rightarrow> nat \<Rightarrow> nat \<Rightarrow> nat \<times> nat \<times> real" where
  "src_index n_in n_out j =
     (let num = int ((2 * j + 1) * n_in) - int n_out; den = int (2 * n_out) in
      if num < 0 then (0, 0, 0)
      else (let s = nat (num div den) in
            if n_in \<le> s + 1 then (n_in - 1, n_in - 1, 0)
            else (s, s + 1, of_int (num mod den) / of_int den)))"

definition lerp :: "real \<Rightarrow> real \<Rightarrow> real \<Rightarrow> real" where
  "lerp a b t = (1 - t) * a + t * b"

definition resize_row :: "real list \<Rightarrow> nat \<Rightarrow> real list" where
  "resize_row v n_out =
     map (\<lambda>j. case src_index (length v) n_out j of (a, b, t) \<Rightarrow> lerp (v ! a) (v ! b) t)
         [0..<n_out]"

definition resize_map :: "fmap \<Rightarrow> nat \<Rightarrow> nat \<Rightarrow> fmap" where
  "resize_map m H W =
     map (\<lambda>i. case src_index (length m) H i of (a, b, t) \<Rightarrow>
                map2 (\<lambda>x y. lerp x y t) (resize_row (m ! a) W) (resize_row (m ! b) W))
         [0..<H]"

subsection \<open>Source coordinates and interpolation\<close>

lemma src_index_bounds:
  assumes "0 < n_in" and "src_index n_in n_out j = (a, b, t)"
  shows "a < n_in \<and> b < n_in \<and> 0 \<le> t \<and> t \<le> 1"
proof -
  define num where "num = int ((2 * j + 1) * n_in) - int n_out"
  define den where "den = int (2 * n_out)"
  have eq: "src_index n_in n_out j =
     (if num < 0 then (0, 0, 0)
      else if n_in \<le> nat (num div den) + 1 then (n_in - 1, n_in - 1, 0)
      else (nat (num div den), nat (num div den) + 1, of_int (num mod den) / of_int den))"
    unfolding src_index_def num_def den_def Let_def by (rule refl)
  have t01: "0 \<le> of_int (num mod den) / (of_int den :: real) \<and>
             of_int (num mod den) / (of_int den :: real) \<le> 1"
  proof (cases "den = 0")
    case True
    then show ?thesis by simp
  next
    case False
    then have "0 < den" by (simp add: den_def)
    then have "0 \<le> num mod den" "num mod den < den" by simp_all
    with \<open>0 < den\<close> show ?thesis by simp
  qed
  show ?thesis
    using assms(1) assms(2) [unfolded eq] t01 by (auto split: if_splits)
qed

lemma lerp_same [simp]: "lerp c c t = c"
  by (simp add: lerp_def algebra_simps)

lemma lerp_zero [simp]: "lerp a b 0 = a"
  by (simp add: lerp_def)

lemma lerp_range:
  assumes "lo \<le> a" "a \<le> hi" "lo \<le> b" "b \<le> hi" "0 \<le> t" "t \<le> 1"
  shows "lo \<le> lerp a b t \<and> lerp a b t \<le> hi"
proof -
  have "lerp a b t - lo = (1 - t) * (a - lo) + t * (b - lo)"
    by (simp add: lerp_def algebra_simps)
  moreover have "0 \<le> (1 - t) * (a - lo) + t * (b - lo)"
    using assms by simp
  moreover have "hi - lerp a b t = (1 - t) * (hi - a) + t * (hi - b)"
    by (simp add: lerp_def algebra_simps)
  moreover have "0 \<le> (1 - t) * (hi - a) + t * (hi - b)"
    using assms by simp
  ultimately show ?thesis by linarith
qed

subsection \<open>Shape\<close>

lemma length_resize_row [simp]: "length (resize_row v n) = n"
  by (simp add: resize_row_def)

lemma resize_map_shape [grid_simps]: "is_mat H W (resize_map m H W)"
  by (auto simp: is_mat_iff resize_map_def split: prod.splits)

subsection \<open>Range\<close>

abbreviation in_range :: "real \<Rightarrow> real \<Rightarrow> real \<Rightarrow> bool" where
  "in_range lo hi x \<equiv> lo \<le> x \<and> x \<le> hi"

lemma resize_row_range:
  assumes "v \<noteq> []" and "\<forall>x\<in>set v. in_range lo hi x"
  shows "\<forall>y\<in>set (resize_row v n). in_range lo hi y"
proof
  fix y assume "y \<in> set (resize_row v n)"
  then obtain j a b t where y: "y = lerp (v ! a) (v ! b) t"
    and idx: "src_index (length v) n j = (a, b, t)"
    by (auto simp: resize_row_def split: prod.splits)
  from assms(1) idx have "a < length v \<and> b < length v \<and> 0 \<le> t \<and> t \<le> 1"
    by (intro src_index_bounds) simp_all
  with assms(2) have "in_range lo hi (v ! a)" "in_range lo hi (v ! b)" "0 \<le> t" "t \<le> 1"
    by (simp_all add: nth_mem)
  then show "in_range lo hi y"
    unfolding y using lerp_range by blast
qed

lemma map2_lerp_range:
  assumes "\<forall>x\<in>set xs. in_range lo hi x" and "\<forall>y\<in>set ys. in_range lo hi y"
    and "0 \<le> t" and "t \<le> 1"
  shows "\<forall>z\<in>set (map2 (\<lambda>x y. lerp x y t) xs ys). in_range lo hi z"
proof
  fix z assume "z \<in> set (map2 (\<lambda>x y. lerp x y t) xs ys)"
  then obtain i where i: "i < length xs" "i < length ys" and z: "z = lerp (xs ! i) (ys ! i) t"
    by (auto simp: set_zip)
  have "in_range lo hi (xs ! i)" "in_range lo hi (ys ! i)"
    using assms(1,2) i by (simp_all add: nth_mem)
  with assms(3,4) show "in_range lo hi z"
    unfolding z using lerp_range by blast
qed

lemma resize_map_range:
  assumes "is_mat h w m" and "0 < h" and "0 < w" and "all2d (in_range lo hi) m"
  shows "all2d (in_range lo hi) (resize_map m H W)"
proof -
  have row: "\<forall>y\<in>set (resize_row (m ! a) W). in_range lo hi y" if "a < h" for a
  proof (rule resize_row_range)
    show "m ! a \<noteq> []" using is_mat_row [OF assms(1) that] assms(3) by auto
    show "\<forall>x\<in>set (m ! a). in_range lo hi x"
      using assms(4) is_mat_lengths(1) [OF assms(1)] that
      by (metis all2d_iff nth_mem)
  qed
  show ?thesis
  proof (unfold all2d_iff, intro ballI)
    fix r x assume r: "r \<in> set (resize_map m H W)" and x: "x \<in> set r"
    from r obtain i a b t where rdef: "r = map2 (\<lambda>x y. lerp x y t) (resize_row (m ! a) W)
                                                  (resize_row (m ! b) W)"
      and idx: "src_index (length m) H i = (a, b, t)"
      by (auto simp: resize_map_def split: prod.splits)
    from assms(1,2) idx have ab: "a < h" "b < h" "0 \<le> t" "t \<le> 1"
      using src_index_bounds [of "length m" H i a b t] by (simp_all add: is_mat_iff)
    have "\<forall>z\<in>set r. in_range lo hi z"
      unfolding rdef using row [OF ab(1)] row [OF ab(2)] ab(3,4) by (rule map2_lerp_range)
    with x show "in_range lo hi x" by blast
  qed
qed

subsection \<open>Resizing to the same shape\<close>

lemma src_index_same:
  assumes "j < n"
  shows "src_index n n j = (if n \<le> j + 1 then (n - 1, n - 1, 0) else (j, j + 1, 0))"
proof -
  have n: "0 < n" using assms by simp
  have num: "int ((2 * j + 1) * n) - int n = int j * int (2 * n)"
    by (simp add: algebra_simps)
  have d: "int j * int (2 * n) div int (2 * n) = int j"
    and m: "int j * int (2 * n) mod int (2 * n) = 0"
    using n by simp_all
  have nn: "\<not> int j * int (2 * n) < 0"
    by (metis of_nat_0_le_iff of_nat_mult not_less)
  have "src_index n n j =
     (if int j * int (2 * n) < 0 then (0, 0, 0)
      else (let s = nat (int j * int (2 * n) div int (2 * n)) in
            if n \<le> s + 1 then (n - 1, n - 1, 0)
            else (s, s + 1, of_int (int j * int (2 * n) mod int (2 * n)) / of_int (int (2 * n)))))"
    by (simp only: src_index_def Let_def num)
  then show ?thesis
    by (simp only: d m nn Let_def nat_int if_False) simp
qed

lemma resize_row_same: "resize_row v (length v) = v"
proof (rule nth_equalityI)
  show "length (resize_row v (length v)) = length v" by simp
  fix j assume "j < length (resize_row v (length v))"
  then have j: "j < length v" by simp
  then have "length v \<le> j + 1 \<Longrightarrow> j = length v - 1" by simp
  with j show "resize_row v (length v) ! j = v ! j"
    by (simp add: resize_row_def src_index_same)
qed

lemma resize_map_nth:
  assumes "i < H" and "j < W" and "src_index (length m) H i = (a, b, t)"
  shows "resize_map m H W ! i ! j = lerp (resize_row (m ! a) W ! j) (resize_row (m ! b) W ! j) t"
  using assms by (simp add: resize_map_def)

subsection \<open>Properties of the resize\<close>

text \<open>
  resize correctness of spec section 8.  A saliency map of uniform value \<open>c\<close>
  (with at least one row and one column) resized to any resolution \<open>H \<times> W\<close> is the
  uniform map of value \<open>c\<close>: bilinear interpolation of a constant is that constant.
\<close>

theorem resize_uniform:
  assumes "is_mat h w m" and "0 < h" and "0 < w" and "all2d (\<lambda>x. x = c) m"
  shows "resize_map m H W = replicate H (replicate W c)"
proof (rule mat_eqI)
  show "is_mat H W (resize_map m H W)" by (rule resize_map_shape)
  show "is_mat H W (replicate H (replicate W c))" by (simp add: is_mat_iff)
  have "all2d (in_range c c) m" using assms(4) by (simp add: all2d_iff)
  then have r: "all2d (in_range c c) (resize_map m H W)"
    using assms(1-3) by (rule resize_map_range [rotated 3])
  fix i j assume ij: "i < H" "j < W"
  have "in_range c c (resize_map m H W ! i ! j)"
    using all2d_nth [OF r] resize_map_shape [of H W m] ij
    by (simp add: is_mat_row is_mat_lengths)
  with ij show "resize_map m H W ! i ! j = replicate H (replicate W c) ! i ! j"
    by simp
qed

theorem resize_uniform_witness:
  "resize_map [[3, 3], [3, 3]] 3 5 = replicate 3 (replicate 5 3)"
  by (rule resize_uniform [where h = 2 and w = 2]) (simp_all add: is_mat_def)

text \<open>
  range preservation.  Every value of the resized map lies between the smallest
  and the largest value of the source map; in particular the non-negative Grad-CAM map
  stays non-negative after the resize, which the normalisation relies on.
\<close>

theorem resize_range:
  assumes "is_mat h w m" and "0 < h" and "0 < w" and "all2d (\<lambda>x. lo \<le> x \<and> x \<le> hi) m"
  shows "all2d (\<lambda>x. lo \<le> x \<and> x \<le> hi) (resize_map m H W)"
  using resize_map_range [OF assms] .

theorem resize_range_witness:
  "all2d (\<lambda>x. 0 \<le> x \<and> x \<le> 4) (resize_map [[0, 4], [2, 1]] 3 3)"
  by (rule resize_range [where h = 2 and w = 2]) (simp_all add: is_mat_def)

text \<open>
  resizing a map to its own shape returns it unchanged: at equal sizes the
  half-pixel rule samples exactly the source pixel centres.
\<close>

theorem resize_same_shape:
  assumes "is_mat h w m"
  shows "resize_map m h w = m"
proof (rule mat_eqI)
  show "is_mat h w (resize_map m h w)" by (rule resize_map_shape)
  show "is_mat h w m" by (rule assms)
  fix i j assume ij: "i < h" "j < w"
  have lm: "length m = h" using assms by (rule is_mat_lengths)
  have row: "length (m ! i) = w" using assms ij(1) by (rule is_mat_row)
  have idx: "src_index (length m) h i =
               (if h \<le> i + 1 then (h - 1, h - 1, 0) else (i, i + 1, 0))"
    using ij(1) lm src_index_same by simp
  have a: "(if h \<le> i + 1 then h - 1 else i) = i" using ij(1) by auto
  have "resize_map m h w ! i ! j = resize_row (m ! i) w ! j"
    using resize_map_nth [OF ij, of m] idx a by (simp split: if_splits)
  also have "\<dots> = m ! i ! j"
    using resize_row_same [of "m ! i"] row by simp
  finally show "resize_map m h w ! i ! j = m ! i ! j" .
qed

theorem resize_same_shape_witness:
  "resize_map [[1, 2, 3], [4, 5, 6]] 2 3 = [[1, 2, 3], [4, 5, 6]]"
  by (rule resize_same_shape [where h = 2 and w = 3]) (simp add: is_mat_def)

end
