(* ===== verification/Mask.thy ===== *)
theory Mask
  imports Prelude
begin

text \<open>
  Mask Builder and Mask Applicator (spec sections 4.3 and 4.4).  Their code,
  \<open>generate_batch_gutout_mask\<close> and \<open>apply_batch_gutout_mask\<close> of
  \<open>src/gutout/generate_gutout_mask.py\<close> (imported by the training script at line 29),
  is not part of the repository's sources; it is modelled from the spec.
  \<open>normalize_map\<close> divides a map by its maximum and returns the all-zero map when the
  maximum is zero (the degenerate case is no error).  The direction of the threshold is
  the spec's open question; it is a configuration value (\<open>suppress_policy\<close>):
  \<open>Suppress_Salient\<close> flags the positions whose normalised saliency exceeds the
  threshold, \<open>Suppress_Background\<close> those below it.  The batch function the script
  calls takes only the threshold, so it fixes the policy to \<open>gutout_policy\<close>, the
  salient region (the one Gutout is named for).  A mask entry is \<open>1\<close> for a flagged
  (suppressed) position and \<open>0\<close> otherwise; the applicator multiplies every channel of
  the image by \<open>1 - msk\<close>.
\<close>

datatype suppress_policy = Suppress_Salient | Suppress_Background

fun flagged :: "suppress_policy \<Rightarrow> real \<Rightarrow> real \<Rightarrow> bool" where
  "flagged Suppress_Salient thr x = (thr < x)"
| "flagged Suppress_Background thr x = (x < thr)"

definition normalize_map :: "fmap \<Rightarrow> fmap" where
  "normalize_map m =
     (let mx = list_max (concat m) in
      if mx = 0 then map2d (\<lambda>_. 0) m else map2d (\<lambda>x. x / mx) m)"

definition threshold_mask :: "suppress_policy \<Rightarrow> real \<Rightarrow> fmap \<Rightarrow> fmap" where
  "threshold_mask policy thr cam = map2d (\<lambda>x. if flagged policy thr x then 1 else 0) cam"

definition gutout_policy :: suppress_policy where
  "gutout_policy = Suppress_Salient"

definition generate_batch_gutout_mask :: "real \<Rightarrow> fmap list \<Rightarrow> fmap list" where
  "generate_batch_gutout_mask threshold masks =
     map (threshold_mask gutout_policy threshold) masks"

definition apply_gutout_mask :: "image \<Rightarrow> fmap \<Rightarrow> image" where
  "apply_gutout_mask img msk = map (\<lambda>ch. zip2d (\<lambda>p m. p * (1 - m)) ch msk) img"

definition apply_batch_gutout_mask :: "image list \<Rightarrow> fmap list \<Rightarrow> image list" where
  "apply_batch_gutout_mask images masks = map2 apply_gutout_mask images masks"

definition suppressed_count :: "fmap \<Rightarrow> nat" where
  "suppressed_count msk = length (filter (\<lambda>x. x = 1) (concat msk))"

subsection \<open>Normalisation\<close>

lemma normalize_map_shape [simp]: "is_mat h w (normalize_map m) = is_mat h w m"
  by (simp add: normalize_map_def Let_def)

lemma normalize_map_range:
  assumes "all2d (\<lambda>x. 0 \<le> x) m"
  shows "all2d (\<lambda>x. 0 \<le> x \<and> x \<le> 1) (normalize_map m)"
proof -
  let ?mx = "list_max (concat m)"
  have ge: "x \<le> ?mx" if "r \<in> set m" "x \<in> set r" for r x
    using that by (intro list_max_ge) auto
  have nn: "0 \<le> ?mx"
    using assms by (intro list_max_nonneg) (auto simp: all2d_iff)
  show ?thesis
  proof (cases "?mx = 0")
    case True
    then show ?thesis by (simp add: normalize_map_def Let_def)
  next
    case False
    with nn have pos: "0 < ?mx" by simp
    have "0 \<le> x / ?mx \<and> x / ?mx \<le> 1" if "r \<in> set m" "x \<in> set r" for r x
      using ge [OF that] assms that pos by (auto simp: all2d_iff)
    with False show ?thesis
      by (auto simp: normalize_map_def Let_def all2d_iff map2d_def)
  qed
qed

lemma normalize_map_zero:
  "all2d (\<lambda>x. x = 0) m \<Longrightarrow> normalize_map m = map2d (\<lambda>_. 0) m"
proof -
  assume z: "all2d (\<lambda>x. x = 0) m"
  have "list_max (concat m) = 0"
  proof (cases "concat m = []")
    case True
    then show ?thesis by (metis list_max.simps(1))
  next
    case False
    then have "list_max (concat m) \<in> set (concat m)" by (rule list_max_in)
    with z show ?thesis by (auto simp: all2d_iff)
  qed
  then show ?thesis by (simp add: normalize_map_def)
qed

lemma normalize_map_attains_one:
  assumes "is_mat H W m" and "\<exists>i<H. \<exists>j<W. normalize_map m ! i ! j \<noteq> 0"
  shows "\<exists>i<H. \<exists>j<W. normalize_map m ! i ! j = 1"
proof -
  let ?mx = "list_max (concat m)"
  have mx: "?mx \<noteq> 0"
  proof
    assume "?mx = 0"
    then have "normalize_map m = map2d (\<lambda>_. 0) m" by (simp add: normalize_map_def)
    with assms show False by (auto simp: is_mat_lengths(1) is_mat_row)
  qed
  then have "concat m \<noteq> []" by (metis list_max.simps(1))
  then have "?mx \<in> set (concat m)" by (rule list_max_in)
  then obtain i j where ij: "i < length m" "j < length (m ! i)" "m ! i ! j = ?mx"
    by (auto simp: in_set_conv_nth set_concat)
  have "i < H" "j < W" using ij assms(1) by (simp_all add: is_mat_lengths(1) is_mat_row)
  moreover have "normalize_map m ! i ! j = 1"
    using ij mx by (simp add: normalize_map_def)
  ultimately show ?thesis by blast
qed

subsection \<open>Thresholding\<close>

lemma threshold_mask_shape [simp]: "is_mat h w (threshold_mask p thr cam) = is_mat h w cam"
  by (simp add: threshold_mask_def)

lemma threshold_mask_binary: "all2d (\<lambda>x. x = 0 \<or> x = 1) (threshold_mask p thr cam)"
  by (simp add: threshold_mask_def)

lemma flagged_mono:
  "thr1 \<le> thr2 \<Longrightarrow> flagged Suppress_Salient thr2 x \<Longrightarrow> flagged Suppress_Salient thr1 x"
  "thr1 \<le> thr2 \<Longrightarrow> flagged Suppress_Background thr1 x \<Longrightarrow> flagged Suppress_Background thr2 x"
  by simp_all

lemma suppressed_count_mono:
  assumes "\<And>x. flagged p thr2 x \<Longrightarrow> flagged p thr1 x"
  shows "suppressed_count (threshold_mask p thr2 cam) \<le> suppressed_count (threshold_mask p thr1 cam)"
proof -
  show ?thesis
    unfolding suppressed_count_def threshold_mask_def map2d_def
    by (simp add: map_concat [symmetric] filter_map)
       (rule length_filter_implies, auto simp: assms split: if_splits)
qed

subsection \<open>Applying a mask\<close>

lemma apply_gutout_mask_shape:
  "is_tensor c h w img \<Longrightarrow> is_mat h w msk \<Longrightarrow> is_tensor c h w (apply_gutout_mask img msk)"
  by (auto simp: apply_gutout_mask_def is_tensor_iff is_mat_zip2d)

lemma apply_gutout_mask_nth:
  assumes "is_tensor c h w img" and "is_mat h w msk" and "k < c" and "i < h" and "j < w"
  shows "apply_gutout_mask img msk ! k ! i ! j = img ! k ! i ! j * (1 - msk ! i ! j)"
proof -
  have ch: "is_mat h w (img ! k)" using assms(1,3) by (simp add: is_tensor_iff)
  have "length img = c" using assms(1) by (simp add: is_tensor_iff)
  then show ?thesis
    using assms(3-5) is_mat_lengths(1) [OF ch] is_mat_lengths(1) [OF assms(2)]
      is_mat_row [OF ch assms(4)] is_mat_row [OF assms(2) assms(4)]
    by (simp add: apply_gutout_mask_def)
qed

lemma apply_gutout_mask_zero:
  assumes "is_tensor c h w img" and "is_mat h w msk" and "all2d (\<lambda>x. x = 0) msk"
  shows "apply_gutout_mask img msk = img"
proof -
  have "zip2d (\<lambda>p m. p * (1 - m)) ch msk = ch" if "ch \<in> set img" for ch
  proof -
    have "is_mat h w ch" using assms(1) that by (simp add: is_tensor_iff)
    then have "zip2d (\<lambda>p m. p * (1 - m)) ch msk = map2d (\<lambda>p. p * (1 - 0)) ch"
      using assms(2,3) by (rule zip2d_eq_map2d)
    then show ?thesis by (simp add: map2d_def)
  qed
  then show ?thesis by (simp add: apply_gutout_mask_def map_idI)
qed

lemma apply_gutout_mask_range:
  assumes "\<forall>ch\<in>set img. all2d (\<lambda>x. 0 \<le> x \<and> x \<le> 1) ch"
    and "all2d (\<lambda>x. 0 \<le> x \<and> x \<le> 1) msk"
  shows "\<forall>ch\<in>set (apply_gutout_mask img msk). all2d (\<lambda>x. 0 \<le> x \<and> x \<le> 1) ch"
proof
  fix ch' assume "ch' \<in> set (apply_gutout_mask img msk)"
  then obtain ch where ch: "ch \<in> set img" and ch': "ch' = zip2d (\<lambda>p m. p * (1 - m)) ch msk"
    by (auto simp: apply_gutout_mask_def)
  have lo: "0 \<le> p * (1 - q)" if "0 \<le> p" "q \<le> 1" for p q :: real
    using that by simp
  have hi: "p * (1 - q) \<le> 1" if "0 \<le> p" "p \<le> 1" "0 \<le> q" "q \<le> 1" for p q :: real
  proof -
    have "p * (1 - q) \<le> 1 * 1" using that by (intro mult_mono) simp_all
    then show ?thesis by simp
  qed
  show "all2d (\<lambda>x. 0 \<le> x \<and> x \<le> 1) ch'"
    using assms(1) ch assms(2) unfolding ch'
    by (auto simp: zip2d_def all2d_iff set_zip intro!: lo hi dest!: nth_mem)
qed

end
