(* ===== verification/Network.thy ===== *)
theory Network
  imports Prelude
begin

text \<open>
  The classifier as the rest of the program sees it.  The ResNet-18 of
  \<open>src/models/resnet.py\<close> is not part of the sources and is treated as an opaque,
  differentiable function (spec section 3, Model): \<open>network\<close> is the interface the
  script uses, at the batch level as PyTorch evaluates it, with the module's mode
  (\<open>model.train()\<close>/\<open>model.eval()\<close>) and its parameters as arguments.  \<open>forward\<close> is
  \<open>model(images)\<close> (one score vector per example), \<open>tap_activation\<close> the output of the
  tapped layer \<open>model.layer3[0]\<close> (line 195), \<open>tap_gradient\<close> the gradient of the selected
  class scores with respect to that activation, and \<open>score_param_grad\<close> and
  \<open>loss_param_grad\<close> the parameter gradients a backward pass from the selected scores,
  resp. from the cross-entropy loss, deposits.

  \<open>model_state\<close> is the mutable state of the module object shared by the training loop
  and the Grad-CAM object built on it (line 195): its parameters, the accumulated
  \<open>.grad\<close> (\<open>None\<close> after \<open>optimizer.zero_grad()\<close>, as in PyTorch 2) and the mode flag.
  \<open>class_count net n\<close> says that the classifier head has \<open>n\<close> outputs.
  \<open>batch_consistent\<close> is the contract the orchestrator needs from the model: the batch
  size is kept (spec section 3, invariant) and the tapped activations have one fixed,
  non-empty shape.  \<open>example_separable\<close> says that each example's outputs depend on that
  example only; a network with batch normalisation in training mode does not have it.
\<close>

record model_state =
  params :: "real list"
  grad :: "real list option"
  training :: bool

record network =
  forward :: "bool \<Rightarrow> real list \<Rightarrow> image list \<Rightarrow> real list list"
  tap_activation :: "bool \<Rightarrow> real list \<Rightarrow> image list \<Rightarrow> tensor list"
  tap_gradient :: "bool \<Rightarrow> real list \<Rightarrow> image list \<Rightarrow> nat list \<Rightarrow> tensor list"
  score_param_grad :: "bool \<Rightarrow> real list \<Rightarrow> image list \<Rightarrow> nat list \<Rightarrow> real list"
  loss_param_grad :: "bool \<Rightarrow> real list \<Rightarrow> image list \<Rightarrow> nat list \<Rightarrow> real list"

definition accumulate_grad :: "real list \<Rightarrow> model_state \<Rightarrow> model_state" where
  "accumulate_grad g m = m\<lparr>grad := Some (case grad m of None \<Rightarrow> g | Some a \<Rightarrow> map2 (+) a g)\<rparr>"

definition zero_grad :: "model_state \<Rightarrow> model_state" where
  "zero_grad m = m\<lparr>grad := None\<rparr>"

definition set_mode :: "bool \<Rightarrow> model_state \<Rightarrow> model_state" where
  "set_mode mode m = m\<lparr>training := mode\<rparr>"

definition batch_consistent :: "network \<Rightarrow> nat \<Rightarrow> nat \<Rightarrow> nat \<Rightarrow> bool" where
  "batch_consistent net c h w \<longleftrightarrow> 0 < h \<and> 0 < w \<and>
     (\<forall>mode p imgs ts.
        length (forward net mode p imgs) = length imgs \<and>
        length (tap_activation net mode p imgs) = length imgs \<and>
        list_all (is_tensor (Suc c) h w) (tap_activation net mode p imgs) \<and>
        length (tap_gradient net mode p imgs ts) = length imgs)"

definition example_separable :: "network \<Rightarrow> bool" where
  "example_separable net \<longleftrightarrow>
     (\<forall>mode p imgs n. n < length imgs \<longrightarrow>
        forward net mode p imgs ! n = forward net mode p [imgs ! n] ! 0 \<and>
        tap_activation net mode p imgs ! n = tap_activation net mode p [imgs ! n] ! 0) \<and>
     (\<forall>mode p imgs ts n. n < length imgs \<longrightarrow> length ts = length imgs \<longrightarrow>
        tap_gradient net mode p imgs ts ! n = tap_gradient net mode p [imgs ! n] [ts ! n] ! 0)"

definition class_count :: "network \<Rightarrow> nat \<Rightarrow> bool" where
  "class_count net ncls \<longleftrightarrow>
     (\<forall>mode p imgs. \<forall>s\<in>set (forward net mode p imgs). length s = ncls)"

lemma accumulate_grad_frame [simp]:
  "params (accumulate_grad g m) = params m" "training (accumulate_grad g m) = training m"
  by (simp_all add: accumulate_grad_def)

lemma zero_grad_frame [simp]:
  "params (zero_grad m) = params m" "training (zero_grad m) = training m"
  "grad (zero_grad m) = None"
  by (simp_all add: zero_grad_def)

lemma set_mode_frame [simp]:
  "params (set_mode b m) = params m" "grad (set_mode b m) = grad m" "training (set_mode b m) = b"
  by (simp_all add: set_mode_def)

lemma zero_grad_accumulate [simp]: "zero_grad (accumulate_grad g m) = zero_grad m"
  by (simp add: zero_grad_def accumulate_grad_def)

lemma zero_grad_grad_upd [simp]: "zero_grad (m\<lparr>grad := g\<rparr>) = zero_grad m"
  by (simp add: zero_grad_def)

lemma accumulate_grad_after_zero [simp]: "grad (accumulate_grad g (zero_grad m)) = Some g"
  by (simp add: accumulate_grad_def zero_grad_def)

lemma example_separableD:
  assumes "example_separable net" and "n < length imgs"
  shows "forward net mode p imgs ! n = forward net mode p [imgs ! n] ! 0"
    "tap_activation net mode p imgs ! n = tap_activation net mode p [imgs ! n] ! 0"
    "length ts = length imgs \<Longrightarrow>
     tap_gradient net mode p imgs ts ! n = tap_gradient net mode p [imgs ! n] [ts ! n] ! 0"
  using assms unfolding example_separable_def by blast+

lemma batch_consistentD:
  assumes "batch_consistent net c h w"
  shows "length (forward net mode p imgs) = length imgs"
    "length (tap_activation net mode p imgs) = length imgs"
    "length (tap_gradient net mode p imgs ts) = length imgs"
    "n < length imgs \<Longrightarrow> is_tensor (Suc c) h w (tap_activation net mode p imgs ! n)"
    "0 < h" "0 < w"
  using assms by (auto simp: batch_consistent_def list_all_iff) (metis nth_mem)

end
