(* ===== verification/GradCam.thy ===== *)
theory GradCam
  imports Saliency Resize Mask Network
begin

text \<open>
  Layer Tap and batch Grad-CAM: the callable \<open>BatchGradCam(model=model,
  feature_module=model.layer3, target_layer_names=["0"])\<close> the script builds at
  lines 195-196 and calls at line 120.  Its class is imported from
  \<open>src/gutout/generate_gutout_mask.py\<close> (line 29), which is not part of the sources, so
  it is modelled from the spec (sections 4.1, 4.2 and 4.5): one forward pass in the
  model's current mode records the scores and the tapped activations, the target class
  of each example is the index of its largest score, one backward pass from the
  selected scores records the activation gradients and, as a side effect, accumulates
  parameter gradients into the shared model (spec section 4.1).  Each example's map is
  its saliency map, resized to the example's spatial size and normalised
  (\<open>cam_of\<close>): the script passes only the threshold and these maps to the mask builder
  (line 121), so they already have the image's resolution.
\<close>

definition img_height :: "image \<Rightarrow> nat" where
  "img_height img = (case img of [] \<Rightarrow> 0 | ch # _ \<Rightarrow> length ch)"

definition img_width :: "image \<Rightarrow> nat" where
  "img_width img = (case img of [] \<Rightarrow> 0 | ch # _ \<Rightarrow> (case ch of [] \<Rightarrow> 0 | r # _ \<Rightarrow> length r))"

definition cam_of :: "image \<Rightarrow> tensor \<Rightarrow> tensor \<Rightarrow> fmap" where
  "cam_of img act g =
     normalize_map (resize_map (saliency_map act g) (img_height img) (img_width img))"

definition cam_targets :: "network \<Rightarrow> model_state \<Rightarrow> image list \<Rightarrow> nat list" where
  "cam_targets net model images =
     map argmax (forward net (training model) (params model) images)"

definition cam_activations :: "network \<Rightarrow> model_state \<Rightarrow> image list \<Rightarrow> tensor list" where
  "cam_activations net model images =
     tap_activation net (training model) (params model) images"

definition cam_gradients :: "network \<Rightarrow> model_state \<Rightarrow> image list \<Rightarrow> tensor list" where
  "cam_gradients net model images =
     tap_gradient net (training model) (params model) images (cam_targets net model images)"

definition batch_grad_cam :: "network \<Rightarrow> model_state \<Rightarrow> image list \<Rightarrow> fmap list \<times> model_state" where
  "batch_grad_cam net model images =
     (map (\<lambda>(img, a, g). cam_of img a g)
          (zip images (zip (cam_activations net model images) (cam_gradients net model images))),
      accumulate_grad
        (score_param_grad net (training model) (params model) images
           (cam_targets net model images)) model)"

subsection \<open>Shapes\<close>

lemma img_dims:
  "is_tensor (Suc c) h w img \<Longrightarrow> 0 < h \<Longrightarrow> img_height img = h \<and> img_width img = w"
  by (cases img; cases "hd img") (auto simp: img_height_def img_width_def is_tensor_iff is_mat_iff)

lemma cam_of_shape: "is_mat (img_height img) (img_width img) (cam_of img a g)"
  by (simp add: cam_of_def resize_map_shape)

lemma length_batch_grad_cam:
  "batch_consistent net c h w \<Longrightarrow> length (fst (batch_grad_cam net m images)) = length images"
  by (simp add: batch_grad_cam_def cam_activations_def cam_gradients_def batch_consistentD)

lemma batch_grad_cam_nth:
  assumes "batch_consistent net c h w" and "n < length images"
  shows "fst (batch_grad_cam net m images) ! n =
           cam_of (images ! n) (cam_activations net m images ! n) (cam_gradients net m images ! n)"
  using assms
  by (simp add: batch_grad_cam_def cam_activations_def cam_gradients_def batch_consistentD)

lemma batch_grad_cam_state:
  "snd (batch_grad_cam net m images) =
     accumulate_grad (score_param_grad net (training m) (params m) images (cam_targets net m images)) m"
  by (simp add: batch_grad_cam_def)

lemma batch_grad_cam_fst_score [simp]:
  "fst (batch_grad_cam (net\<lparr>score_param_grad := f\<rparr>) m imgs) = fst (batch_grad_cam net m imgs)"
  by (simp add: batch_grad_cam_def cam_activations_def cam_gradients_def cam_targets_def)

lemma batch_grad_cam_fst_grad [simp]:
  "fst (batch_grad_cam net (m\<lparr>grad := g\<rparr>) imgs) = fst (batch_grad_cam net m imgs)"
  by (simp add: batch_grad_cam_def cam_activations_def cam_gradients_def cam_targets_def)

lemma zero_grad_batch_grad_cam [simp]:
  "zero_grad (snd (batch_grad_cam net m imgs)) = zero_grad m"
  by (simp add: batch_grad_cam_state)

subsection \<open>Range of the maps\<close>

lemma cam_of_range:
  assumes "is_tensor (Suc c) h w act" and "0 < h" and "0 < w"
  shows "all2d (\<lambda>x. 0 \<le> x \<and> x \<le> 1) (cam_of img act g)"
proof -
  have s: "is_mat h w (saliency_map act g)" using assms(1) by (rule saliency_map_shape)
  have le: "x \<le> list_max (concat (saliency_map act g))"
    if "r \<in> set (saliency_map act g)" "x \<in> set r" for r x
    using that by (intro list_max_ge) auto
  have "all2d (\<lambda>x. 0 \<le> x \<and> x \<le> list_max (concat (saliency_map act g))) (saliency_map act g)"
    using saliency_nonneg [of act g] le by (auto simp: all2d_iff)
  then have "all2d (\<lambda>x. 0 \<le> x \<and> x \<le> list_max (concat (saliency_map act g)))
               (resize_map (saliency_map act g) (img_height img) (img_width img))"
    by (rule resize_map_range [OF s assms(2,3)])
  then have "all2d (\<lambda>x. 0 \<le> x) (resize_map (saliency_map act g) (img_height img) (img_width img))"
    by (auto simp: all2d_iff)
  then show ?thesis unfolding cam_of_def by (rule normalize_map_range)
qed

lemma cam_of_zero_weights:
  assumes "is_tensor (Suc c) h w act" and "0 < h" and "0 < w"
    and "\<forall>v\<in>set (channel_weights g). v = 0"
  shows "all2d (\<lambda>x. x = 0) (cam_of img act g)"
proof -
  have "saliency_map act g = zero_cam act" using assms(1,4) by (rule saliency_zero_weights)
  then have z: "all2d (\<lambda>x. x = 0) (saliency_map act g)" by (simp add: zero_cam_entries)
  have s: "is_mat h w (saliency_map act g)" using assms(1) by (rule saliency_map_shape)
  have "all2d (\<lambda>x. 0 \<le> x \<and> x \<le> 0) (saliency_map act g)" using z by (auto simp: all2d_iff)
  then have "all2d (\<lambda>x. 0 \<le> x \<and> x \<le> 0)
               (resize_map (saliency_map act g) (img_height img) (img_width img))"
    by (rule resize_map_range [OF s assms(2,3)])
  then have "all2d (\<lambda>x. x = 0) (resize_map (saliency_map act g) (img_height img) (img_width img))"
    unfolding all2d_iff by (meson order_antisym)
  then show ?thesis by (simp add: cam_of_def normalize_map_zero)
qed

end
