(* ===== verification/Gutout.thy ===== *)
theory Gutout
  imports GradCam
begin

text \<open>
  Gutout Orchestrator: \<open>get_gutout\<close> of \<open>src/src/training/resnet_train_w_gutout.py\<close>
  (lines 119-124).  It calls the Grad-CAM object on the batch, thresholds the maps
  with the given threshold and applies the masks to the batch.  The Grad-CAM object is
  a parameter (\<open>grad_cam\<close>) applied to the shared model state, because in the script it
  wraps the very model the training loop trains (line 195); calling it may change that
  state (its backward pass deposits gradients).  The \<open>model\<close> parameter of the Python
  function is not used by its body; here it is the state the Grad-CAM call reads.

  The lemmas, for the script's Grad-CAM object \<open>batch_grad_cam net\<close> on a network that
  keeps the batch size: the augmented batch has the shape of the input batch; each pixel
  is zeroed exactly where the normalised Grad-CAM map exceeds the threshold and kept
  otherwise (a refinement of "cut out the salient region"); a dead layer leaves the
  image unchanged; raising the threshold never cuts a pixel a lower threshold keeps; a
  threshold of at least 1 cuts nothing; with a network whose examples do not interact,
  each augmented image depends on its own input only; and the call changes neither
  the parameters nor the mode of the model.
\<close>

definition get_gutout ::
  "model_state \<Rightarrow> (model_state \<Rightarrow> image list \<Rightarrow> fmap list \<times> model_state) \<Rightarrow> image list \<Rightarrow> real
   \<Rightarrow> image list \<times> model_state" where
  "get_gutout model grad_cam images threshold =
     (let (masks, model') = grad_cam model images;
          gutout_masks = generate_batch_gutout_mask threshold masks;
          img_after_gutout = apply_batch_gutout_mask images gutout_masks
      in (img_after_gutout, model'))"

abbreviation demo_net :: network where
  "demo_net \<equiv>
     \<lparr>forward = (\<lambda>mode p imgs. map (\<lambda>_. [1, 0]) imgs),
      tap_activation = (\<lambda>mode p imgs. map (\<lambda>_. [[[1, 2], [3, 0]]]) imgs),
      tap_gradient = (\<lambda>mode p imgs ts. map (\<lambda>_. [[[1, 1], [1, 1]]]) imgs),
      score_param_grad = (\<lambda>mode p imgs ts. [1]),
      loss_param_grad = (\<lambda>mode p imgs ts. [2])\<rparr>"

abbreviation demo_model :: model_state where
  "demo_model \<equiv> \<lparr>params = [0], grad = None, training = True\<rparr>"

abbreviation demo_images :: "image list" where
  "demo_images \<equiv> [[[[4, 4], [4, 4]]], [[[2, 3], [5, 7]]]]"

subsection \<open>Unfolding the orchestrator\<close>

lemma get_gutout_fst:
  "fst (get_gutout model gc images thr) =
     apply_batch_gutout_mask images (generate_batch_gutout_mask thr (fst (gc model images)))"
  by (simp add: get_gutout_def split: prod.splits)

lemma get_gutout_snd: "snd (get_gutout model gc images thr) = snd (gc model images)"
  by (simp add: get_gutout_def split: prod.splits)

lemma get_gutout_length:
  assumes "batch_consistent net c h w"
  shows "length (fst (get_gutout m (batch_grad_cam net) images thr)) = length images"
  using length_batch_grad_cam [OF assms]
  by (simp add: get_gutout_fst apply_batch_gutout_mask_def generate_batch_gutout_mask_def)

lemma get_gutout_nth:
  assumes "batch_consistent net c h w" and "n < length images"
  shows "fst (get_gutout m (batch_grad_cam net) images thr) ! n =
           apply_gutout_mask (images ! n)
             (threshold_mask gutout_policy thr (fst (batch_grad_cam net m images) ! n))"
  using assms length_batch_grad_cam [OF assms(1)]
  by (simp add: get_gutout_fst apply_batch_gutout_mask_def generate_batch_gutout_mask_def)

lemma gutout_cam_shape:
  assumes "batch_consistent net c h w" and "n < length images"
    and "is_tensor (Suc k) H W (images ! n)" and "0 < H"
  shows "is_mat H W (fst (batch_grad_cam net m images) ! n)"
  using cam_of_shape [of "images ! n"] img_dims [OF assms(3,4)]
  by (simp add: batch_grad_cam_nth [OF assms(1,2)])

lemma gutout_cam_range:
  assumes "batch_consistent net c h w" and "n < length images"
  shows "all2d (\<lambda>x. 0 \<le> x \<and> x \<le> 1) (fst (batch_grad_cam net m images) ! n)"
proof -
  have "is_tensor (Suc c) h w (cam_activations net m images ! n)"
    using assms by (simp add: cam_activations_def batch_consistentD)
  then show ?thesis
    using batch_consistentD(5,6) [OF assms(1)]
    by (simp add: batch_grad_cam_nth [OF assms] cam_of_range)
qed

lemma threshold_mask_nth:
  "is_mat H W cam \<Longrightarrow> i < H \<Longrightarrow> j < W \<Longrightarrow>
   threshold_mask p thr cam ! i ! j = (if flagged p thr (cam ! i ! j) then 1 else 0)"
  by (simp add: threshold_mask_def is_mat_lengths(1) is_mat_row)

lemma get_gutout_entry:
  assumes "batch_consistent net c h w" and "list_all (is_tensor (Suc k) H W) images" and "0 < H"
    and "n < length images" and "ch < Suc k" and "i < H" and "j < W"
  shows "fst (get_gutout m (batch_grad_cam net) images thr) ! n ! ch ! i ! j =
           images ! n ! ch ! i ! j *
           (1 - (if flagged gutout_policy thr (fst (batch_grad_cam net m images) ! n ! i ! j)
                 then 1 else 0))"
proof -
  have img: "is_tensor (Suc k) H W (images ! n)"
    using assms(2,4) by (simp add: list_all_iff)
  have cam: "is_mat H W (fst (batch_grad_cam net m images) ! n)"
    using assms(1,4) img assms(3) by (rule gutout_cam_shape)
  have msk: "is_mat H W (threshold_mask gutout_policy thr (fst (batch_grad_cam net m images) ! n))"
    using cam by simp
  show ?thesis
    using apply_gutout_mask_nth [OF img msk assms(5-7)] threshold_mask_nth [OF cam assms(6,7)]
    by (simp add: get_gutout_nth [OF assms(1,4)])
qed

lemmas cam_eval_simps = get_gutout_def batch_grad_cam_def cam_of_def
  cam_activations_def cam_gradients_def cam_targets_def saliency_map_def relu_map_def
  channel_weights_def mean_def zero_cam_def map2d_def zip2d_def resize_map_def resize_row_def
  src_index_def lerp_def normalize_map_def img_height_def img_width_def
  generate_batch_gutout_mask_def threshold_mask_def gutout_policy_def
  apply_batch_gutout_mask_def apply_gutout_mask_def argmax_def

lemma gutout_cam_attains_one:
  assumes "batch_consistent net c h w" and "list_all (is_tensor (Suc k) H W) images" and "0 < H"
    and "n < length images"
    and "\<exists>i<H. \<exists>j<W. fst (batch_grad_cam net m images) ! n ! i ! j \<noteq> 0"
  shows "\<exists>i<H. \<exists>j<W. fst (batch_grad_cam net m images) ! n ! i ! j = 1"
proof -
  have img: "is_tensor (Suc k) H W (images ! n)" using assms(2,4) by (simp add: list_all_iff)
  have d: "img_height (images ! n) = H" "img_width (images ! n) = W"
    using img_dims [OF img assms(3)] by simp_all
  let ?r = "resize_map (saliency_map (cam_activations net m images ! n) (cam_gradients net m images ! n)) H W"
  have r: "is_mat H W ?r" by (rule resize_map_shape)
  have eq: "fst (batch_grad_cam net m images) ! n = normalize_map ?r"
    by (simp add: batch_grad_cam_nth [OF assms(1,4)] cam_of_def d)
  have "\<exists>i<H. \<exists>j<W. normalize_map ?r ! i ! j \<noteq> 0" using assms(5) by (simp only: eq)
  then have "\<exists>i<H. \<exists>j<W. normalize_map ?r ! i ! j = 1" by (rule normalize_map_attains_one [OF r])
  then show ?thesis by (simp only: eq)
qed

lemma get_gutout_no_cut:
  assumes "batch_consistent net c h w" and "list_all (is_tensor (Suc k) H W) images" and "0 < H"
    and "\<forall>n<length images. all2d (\<lambda>x. x \<le> thr) (fst (batch_grad_cam net m images) ! n)"
  shows "fst (get_gutout m (batch_grad_cam net) images thr) = images"
proof (rule nth_equalityI)
  show "length (fst (get_gutout m (batch_grad_cam net) images thr)) = length images"
    using assms(1) by (rule get_gutout_length)
  fix n assume "n < length (fst (get_gutout m (batch_grad_cam net) images thr))"
  then have n: "n < length images" using get_gutout_length [OF assms(1)] by simp
  have img: "is_tensor (Suc k) H W (images ! n)"
    using assms(2) n by (simp add: list_all_iff)
  have cam: "is_mat H W (fst (batch_grad_cam net m images) ! n)"
    using assms(1) n img assms(3) by (rule gutout_cam_shape)
  have "all2d (\<lambda>x. x \<le> thr) (fst (batch_grad_cam net m images) ! n)" using assms(4) n by blast
  then have "all2d (\<lambda>x. \<not> thr < x) (fst (batch_grad_cam net m images) ! n)"
    by (rule all2d_mono) simp
  then have "all2d (\<lambda>x. x = 0) (threshold_mask gutout_policy thr (fst (batch_grad_cam net m images) ! n))"
    by (simp add: threshold_mask_def gutout_policy_def)
  moreover have "is_mat H W (threshold_mask gutout_policy thr (fst (batch_grad_cam net m images) ! n))"
    using cam by simp
  ultimately show "fst (get_gutout m (batch_grad_cam net) images thr) ! n = images ! n"
    using apply_gutout_mask_zero [OF img] by (simp add: get_gutout_nth [OF assms(1) n])
qed

subsection \<open>Properties of the orchestrator\<close>

text \<open>
  C1: the augmented image the training step receives from \<open>get_gutout\<close> is the input
  image with exactly the pixels zeroed at which the example's normalised Grad-CAM map
  exceeds the threshold; every other pixel is passed through unchanged, in every channel.
\<close>

theorem get_gutout_pixel:
  assumes "batch_consistent net c h w" and "list_all (is_tensor (Suc k) H W) images" and "0 < H"
    and "n < length images" and "ch < Suc k" and "i < H" and "j < W"
  shows "fst (get_gutout m (batch_grad_cam net) images thr) ! n ! ch ! i ! j =
           (if thr < fst (batch_grad_cam net m images) ! n ! i ! j then 0
            else images ! n ! ch ! i ! j)"
  using get_gutout_entry [OF assms] by (simp add: gutout_policy_def)

theorem get_gutout_pixel_witness:
  "fst (get_gutout demo_model (batch_grad_cam demo_net) demo_images (1 / 2)) ! 1 ! 0 ! 0 ! 1 =
     (if 1 / 2 < fst (batch_grad_cam demo_net demo_model demo_images) ! 1 ! 0 ! 1 then 0
      else demo_images ! 1 ! 0 ! 0 ! 1)"
  by (rule get_gutout_pixel [where c = 0 and h = 2 and w = 2 and k = 0 and H = 2 and W = 2])
     (simp_all add: batch_consistent_def is_tensor_def is_mat_def list_all_iff)

text \<open>
  C6: \<open>get_gutout\<close> returns one augmented image per input image, each of the input's
  shape (channels, height, width): the batch size and the shapes are kept
  (spec section 8, first property).
\<close>

theorem get_gutout_shape:
  assumes "batch_consistent net c h w" and "list_all (is_tensor (Suc k) H W) images" and "0 < H"
  shows "length (fst (get_gutout m (batch_grad_cam net) images thr)) = length images \<and>
         list_all (is_tensor (Suc k) H W) (fst (get_gutout m (batch_grad_cam net) images thr))"
proof
  show len: "length (fst (get_gutout m (batch_grad_cam net) images thr)) = length images"
    using assms(1) by (rule get_gutout_length)
  have "is_tensor (Suc k) H W (fst (get_gutout m (batch_grad_cam net) images thr) ! n)"
    if n: "n < length images" for n
  proof -
    have img: "is_tensor (Suc k) H W (images ! n)"
      using assms(2) n by (simp add: list_all_iff)
    have "is_mat H W (fst (batch_grad_cam net m images) ! n)"
      using assms(1) n img assms(3) by (rule gutout_cam_shape)
    then show ?thesis
      using apply_gutout_mask_shape [OF img] by (simp add: get_gutout_nth [OF assms(1) n])
  qed
  with len show "list_all (is_tensor (Suc k) H W) (fst (get_gutout m (batch_grad_cam net) images thr))"
    by (simp add: list_all_length)
qed

theorem get_gutout_shape_witness:
  "length (fst (get_gutout demo_model (batch_grad_cam demo_net) demo_images (7 / 10))) = 2 \<and>
   list_all (is_tensor 1 2 2) (fst (get_gutout demo_model (batch_grad_cam demo_net) demo_images (7 / 10)))"
  using get_gutout_shape [where net = demo_net and c = 0 and h = 2 and w = 2 and k = 0 and H = 2
      and W = 2 and images = demo_images and m = demo_model and thr = "7 / 10"]
  by (simp add: batch_consistent_def is_tensor_def is_mat_def list_all_iff)

text \<open>
  C7: degenerate case.  If every channel weight of an example's tap gradient is zero
  (a dead layer) and the threshold is not negative, its mask is all zero and its augmented image is the input image
  exactly; no error is raised (spec sections 4.2, 4.3 and 8).
\<close>

theorem get_gutout_dead_layer:
  assumes "batch_consistent net c h w" and "list_all (is_tensor (Suc k) H W) images" and "0 < H"
    and "n < length images" and "0 \<le> thr"
    and "\<forall>v\<in>set (channel_weights (cam_gradients net m images ! n)). v = 0"
  shows "fst (get_gutout m (batch_grad_cam net) images thr) ! n = images ! n"
proof -
  have img: "is_tensor (Suc k) H W (images ! n)"
    using assms(2,4) by (simp add: list_all_iff)
  have act: "is_tensor (Suc c) h w (cam_activations net m images ! n)"
    using assms(1,4) by (simp add: cam_activations_def batch_consistentD)
  have z: "all2d (\<lambda>x. x = 0) (fst (batch_grad_cam net m images) ! n)"
    using cam_of_zero_weights [OF act batch_consistentD(5,6) [OF assms(1)] assms(6)]
    by (simp add: batch_grad_cam_nth [OF assms(1,4)])
  have cam: "is_mat H W (fst (batch_grad_cam net m images) ! n)"
    using assms(1,4) img assms(3) by (rule gutout_cam_shape)
  have "all2d (\<lambda>x. x = 0) (threshold_mask gutout_policy thr (fst (batch_grad_cam net m images) ! n))"
    using z assms(5) by (simp add: threshold_mask_def gutout_policy_def) (erule all2d_mono, simp)
  moreover have "is_mat H W (threshold_mask gutout_policy thr (fst (batch_grad_cam net m images) ! n))"
    using cam by simp
  ultimately show ?thesis
    using apply_gutout_mask_zero [OF img] by (simp add: get_gutout_nth [OF assms(1,4)])
qed

theorem get_gutout_dead_layer_witness:
  "fst (get_gutout demo_model
          (batch_grad_cam (demo_net\<lparr>tap_gradient := \<lambda>mode p imgs ts. map (\<lambda>_. [[[0, 0], [0, 0]]]) imgs\<rparr>))
          demo_images (7 / 10)) ! 1 = demo_images ! 1"
  by (rule get_gutout_dead_layer [where c = 0 and h = 2 and w = 2 and k = 0 and H = 2 and W = 2])
     (simp_all add: batch_consistent_def is_tensor_def is_mat_def list_all_iff cam_gradients_def
        channel_weights_def mean_def)

text \<open>
  C8: threshold monotonicity (spec section 8), in the direction implemented (the salient
  region is cut): raising the threshold never cuts a pixel that a lower threshold keeps.
\<close>

theorem get_gutout_threshold_mono:
  assumes "batch_consistent net c h w" and "list_all (is_tensor (Suc k) H W) images" and "0 < H"
    and "n < length images" and "ch < Suc k" and "i < H" and "j < W" and "thr_lo \<le> thr_hi"
    and "fst (get_gutout m (batch_grad_cam net) images thr_lo) ! n ! ch ! i ! j = images ! n ! ch ! i ! j"
  shows "fst (get_gutout m (batch_grad_cam net) images thr_hi) ! n ! ch ! i ! j = images ! n ! ch ! i ! j"
  using assms(8,9) get_gutout_entry [OF assms(1-7), where thr = thr_lo]
    get_gutout_entry [OF assms(1-7), where thr = thr_hi]
  by (auto simp: gutout_policy_def split: if_splits)

theorem get_gutout_threshold_mono_witness:
  "fst (get_gutout demo_model (batch_grad_cam demo_net) demo_images (9 / 10)) ! 1 ! 0 ! 0 ! 0 =
   demo_images ! 1 ! 0 ! 0 ! 0"
proof (rule get_gutout_threshold_mono [where c = 0 and h = 2 and w = 2 and k = 0 and H = 2 and W = 2
      and thr_lo = "1 / 2"])
  show "fst (get_gutout demo_model (batch_grad_cam demo_net) demo_images (1 / 2)) ! 1 ! 0 ! 0 ! 0 =
        demo_images ! 1 ! 0 ! 0 ! 0"
    by (simp add: get_gutout_def batch_grad_cam_def cam_of_def cam_activations_def
        cam_gradients_def cam_targets_def saliency_map_def relu_map_def channel_weights_def mean_def
        zero_cam_def map2d_def zip2d_def resize_map_def resize_row_def src_index_def lerp_def
        normalize_map_def img_height_def img_width_def generate_batch_gutout_mask_def
        threshold_mask_def gutout_policy_def apply_batch_gutout_mask_def apply_gutout_mask_def)
qed (simp_all add: batch_consistent_def is_tensor_def is_mat_def list_all_iff)

text \<open>
  C5: a threshold of 1 or more cuts nothing: the normalised Grad-CAM map never exceeds 1,
  so \<open>get_gutout\<close> returns the input batch unchanged (spec section 8, scenario 2).
\<close>

theorem get_gutout_threshold_one:
  assumes "batch_consistent net c h w" and "list_all (is_tensor (Suc k) H W) images" and "0 < H"
    and "1 \<le> thr"
  shows "fst (get_gutout m (batch_grad_cam net) images thr) = images"
proof (rule get_gutout_no_cut [OF assms(1-3)], intro allI impI)
  fix n assume "n < length images"
  then show "all2d (\<lambda>x. x \<le> thr) (fst (batch_grad_cam net m images) ! n)"
    using gutout_cam_range [OF assms(1)] assms(4) by (blast intro: all2d_mono order_trans)
qed

theorem get_gutout_threshold_one_witness:
  "fst (get_gutout demo_model (batch_grad_cam demo_net) demo_images 1) = demo_images"
  by (rule get_gutout_threshold_one [where c = 0 and h = 2 and w = 2 and k = 0 and H = 2 and W = 2])
     (simp_all add: batch_consistent_def is_tensor_def is_mat_def list_all_iff)

lemma cam_targets_local:
  assumes "example_separable net" and "batch_consistent net c h w" and "n < length imgs"
  shows "cam_targets net m imgs ! n = cam_targets net m [imgs ! n] ! 0"
proof -
  have "forward net (training m) (params m) imgs ! n =
        forward net (training m) (params m) [imgs ! n] ! 0"
    by (rule example_separableD(1) [OF assms(1,3)])
  moreover have "length (forward net (training m) (params m) [imgs ! n]) = 1"
    by (simp add: batch_consistentD(1) [OF assms(2)])
  ultimately show ?thesis
    using assms(3) by (simp add: cam_targets_def batch_consistentD(1) [OF assms(2)])
qed

lemma batch_grad_cam_local:
  assumes "example_separable net" and "batch_consistent net c h w" and "n < length imgs"
  shows "fst (batch_grad_cam net m imgs) ! n = fst (batch_grad_cam net m [imgs ! n]) ! 0"
proof -
  let ?mode = "training m" and ?p = "params m"
  have lt: "length (cam_targets net m imgs) = length imgs"
    by (simp add: cam_targets_def batch_consistentD(1) [OF assms(2)])
  have one: "cam_targets net m [imgs ! n] = [cam_targets net m [imgs ! n] ! 0]"
    using batch_consistentD(1) [OF assms(2), of ?mode ?p "[imgs ! n]"]
    by (auto simp: cam_targets_def length_Suc_conv)
  have a: "cam_activations net m imgs ! n = cam_activations net m [imgs ! n] ! 0"
    unfolding cam_activations_def by (rule example_separableD(2) [OF assms(1,3)])
  have "cam_gradients net m imgs ! n =
          tap_gradient net ?mode ?p [imgs ! n] [cam_targets net m imgs ! n] ! 0"
    unfolding cam_gradients_def by (rule example_separableD(3) [OF assms(1,3) lt])
  also have "\<dots> = cam_gradients net m [imgs ! n] ! 0"
    using cam_targets_local [OF assms] one by (simp add: cam_gradients_def)
  finally have g: "cam_gradients net m imgs ! n = cam_gradients net m [imgs ! n] ! 0" .
  show ?thesis
    using batch_grad_cam_nth [OF assms(2,3)] batch_grad_cam_nth [OF assms(2), of 0 "[imgs ! n]"] a g
    by simp
qed

text \<open>
  C9: cross-example isolation (spec sections 4.1 and 8).  If the network treats the
  examples of a batch independently, changing one example of the batch does not change
  the augmented image of any other example.
\<close>

theorem get_gutout_isolation:
  assumes "example_separable net" and "batch_consistent net c h w"
    and "k < length images" and "n < length images" and "n \<noteq> k"
  shows "fst (get_gutout m (batch_grad_cam net) (images[k := x]) thr) ! n =
         fst (get_gutout m (batch_grad_cam net) images thr) ! n"
proof -
  have n': "n < length (images[k := x])" using assms(4) by simp
  have same: "images[k := x] ! n = images ! n" using assms(5) by simp
  have "fst (batch_grad_cam net m (images[k := x])) ! n = fst (batch_grad_cam net m images) ! n"
    using batch_grad_cam_local [OF assms(1,2) n'] batch_grad_cam_local [OF assms(1,2,4)] same
    by simp
  then show ?thesis
    using get_gutout_nth [OF assms(2) n'] get_gutout_nth [OF assms(2,4)] same by simp
qed

theorem get_gutout_isolation_witness:
  "fst (get_gutout demo_model (batch_grad_cam demo_net) (demo_images[1 := [[[0, 0], [0, 0]]]]) (7 / 10)) ! 0 =
   fst (get_gutout demo_model (batch_grad_cam demo_net) demo_images (7 / 10)) ! 0"
  by (rule get_gutout_isolation [where c = 0 and h = 2 and w = 2])
     (simp_all add: example_separable_def batch_consistent_def is_tensor_def is_mat_def list_all_iff
        nth_Cons')

text \<open>
  C27: Gutout is never a no-op on an example with a non-degenerate saliency map: for a
  threshold below 1 (the script uses 0.7), the map's peak is normalised to exactly 1,
  so at least one pixel position is zeroed in every channel of that image.
\<close>

theorem get_gutout_cuts_peak:
  assumes "batch_consistent net c h w" and "list_all (is_tensor (Suc k) H W) images" and "0 < H"
    and "n < length images" and "thr < 1"
    and "\<exists>i<H. \<exists>j<W. fst (batch_grad_cam net m images) ! n ! i ! j \<noteq> 0"
  shows "\<exists>i<H. \<exists>j<W. \<forall>ch<Suc k. fst (get_gutout m (batch_grad_cam net) images thr) ! n ! ch ! i ! j = 0"
proof -
  obtain i j where ij: "i < H" "j < W" "fst (batch_grad_cam net m images) ! n ! i ! j = 1"
    using gutout_cam_attains_one [OF assms(1-4,6)] by blast
  have "fst (get_gutout m (batch_grad_cam net) images thr) ! n ! ch ! i ! j = 0" if "ch < Suc k" for ch
    using get_gutout_entry [OF assms(1-4) that ij(1,2)] ij(3) assms(5) by (simp add: gutout_policy_def)
  with ij show ?thesis by blast
qed

theorem get_gutout_cuts_peak_witness:
  "\<exists>i<2. \<exists>j<2. \<forall>ch<Suc 0. fst (get_gutout demo_model (batch_grad_cam demo_net) demo_images (7 / 10)) ! 1 ! ch ! i ! j = 0"
proof (rule get_gutout_cuts_peak [where c = 0 and h = 2 and w = 2 and k = 0 and H = 2 and W = 2])
  show "\<exists>i<2. \<exists>j<2. fst (batch_grad_cam demo_net demo_model demo_images) ! 1 ! i ! j \<noteq> 0"
    by (intro exI [of _ "0::nat"] conjI) (simp_all add: cam_eval_simps)
qed (simp_all add: batch_consistent_def is_tensor_def is_mat_def list_all_iff)

end
