(* ===== verification/Optim.thy ===== *)
theory Optim
  imports Network
begin

text \<open>
  Loss, optimizer and learning-rate schedule as the script configures them
  (lines 103-106) and calls them (lines 147-149 and 205).
  \<^item> \<open>cross_entropy\<close> is \<open>nn.CrossEntropyLoss()\<close> with its default mean reduction:
    the mean over the batch of \<open>-log softmax(pred)[label]\<close>, NaN on an empty batch
    (the mean of no terms).  PyTorch raises
    \<open>ValueError\<close> when the batch sizes of scores and labels differ and \<open>IndexError\<close>
    when a label is not a class index of the score vector.
  \<^item> \<open>sgd_step\<close> is \<open>optimizer.step()\<close> of \<open>torch.optim.SGD(lr, momentum=0.9,
    nesterov=True, weight_decay=5e-4)\<close> on the flattened parameters: weight decay is
    added to the gradient, the momentum buffer is the gradient at the first step and
    \<open>0.9 \<cdot> buf + d\<close> afterwards (dampening 0), the Nesterov step uses \<open>d + 0.9 \<cdot> buf\<close>.
    Parameters without gradient (\<open>.grad\<close> is \<open>None\<close>) are skipped.
  \<^item> \<open>sched_step\<close> is \<open>scheduler.step()\<close> of \<open>MultiStepLR(milestones=[60, 120, 160],
    gamma=0.2)\<close>: the epoch counter is incremented and the learning rate is multiplied by
    \<open>gamma\<close> when the new counter is a milestone.
\<close>

definition log_softmax_at :: "real list \<Rightarrow> nat \<Rightarrow> real" where
  "log_softmax_at xs c = xs ! c - ln (sum_list (map exp xs))"

definition cross_entropy :: "real list list \<Rightarrow> nat list \<Rightarrow> py_error + pyfloat" where
  "cross_entropy preds labels =
     (if length preds \<noteq> length labels then Inl ValueError
      else if list_ex (\<lambda>(p, y). length p \<le> y) (zip preds labels) then Inl IndexError
      else if preds = [] then Inr None
      else Inr (Some (mean (map2 (\<lambda>p y. - log_softmax_at p y) preds labels))))"

record sgd_state =
  lr :: real
  momentum_buffer :: "real list option"

definition sgd_momentum :: real where "sgd_momentum = 9 / 10"

definition sgd_weight_decay :: real where "sgd_weight_decay = 5 / 10000"

definition sgd_init :: "real \<Rightarrow> sgd_state" where
  "sgd_init learning_rate = \<lparr>lr = learning_rate, momentum_buffer = None\<rparr>"

definition sgd_step :: "sgd_state \<Rightarrow> model_state \<Rightarrow> sgd_state \<times> model_state" where
  "sgd_step opt m =
     (case grad m of
        None \<Rightarrow> (opt, m)
      | Some g \<Rightarrow>
          (let d = map2 (\<lambda>gi pi. gi + sgd_weight_decay * pi) g (params m);
               buf = (case momentum_buffer opt of
                        None \<Rightarrow> d
                      | Some b \<Rightarrow> map2 (\<lambda>bi di. sgd_momentum * bi + di) b d);
               step = map2 (\<lambda>di bi. di + sgd_momentum * bi) d buf
           in (opt\<lparr>momentum_buffer := Some buf\<rparr>,
               m\<lparr>params := map2 (\<lambda>pi si. pi - lr opt * si) (params m) step\<rparr>)))"

definition milestones :: "nat list" where "milestones = [60, 120, 160]"

definition sched_gamma :: real where "sched_gamma = 2 / 10"

definition sched_step :: "nat \<Rightarrow> sgd_state \<Rightarrow> nat \<times> sgd_state" where
  "sched_step last_epoch opt =
     (let e = Suc last_epoch in
      (e, if e \<in> set milestones then opt\<lparr>lr := lr opt * sched_gamma\<rparr> else opt))"

subsection \<open>Loss\<close>

lemma cross_entropy_ok:
  "length preds = length labels \<Longrightarrow> \<forall>(p, y)\<in>set (zip preds labels). y < length p \<Longrightarrow>
   \<exists>loss. cross_entropy preds labels = Inr loss"
  by (auto simp: cross_entropy_def list_ex_iff not_le)

lemma cross_entropy_Inr:
  "cross_entropy preds labels = Inr loss \<Longrightarrow> length preds = length labels"
  by (simp add: cross_entropy_def split: if_splits)

lemma cross_entropy_out_of_bounds:
  "length preds = length labels \<Longrightarrow> i < length labels \<Longrightarrow> length (preds ! i) \<le> labels ! i \<Longrightarrow>
   cross_entropy preds labels = Inl IndexError"
  by (auto simp: cross_entropy_def list_ex_iff set_zip)

subsection \<open>Optimizer\<close>

lemma sgd_step_frame [simp]:
  "training (snd (sgd_step opt m)) = training m" "grad (snd (sgd_step opt m)) = grad m"
  "lr (fst (sgd_step opt m)) = lr opt"
  by (simp_all add: sgd_step_def Let_def split: option.splits)

lemma sched_step_frame [simp]:
  "momentum_buffer (snd (sched_step e opt)) = momentum_buffer opt"
  "fst (sched_step e opt) = Suc e"
  by (simp_all add: sched_step_def Let_def)

subsection \<open>Properties of the loss and the optimizer\<close>




text \<open>
  C19: the first \<open>optimizer.step()\<close> (no momentum buffer yet) of Nesterov SGD with weight
  decay moves every parameter by \<open>lr \<cdot> (1 + 0.9) \<cdot> (g + 5e-4 \<cdot> p)\<close> and stores
  \<open>g + 5e-4 \<cdot> p\<close> as the momentum buffer.
\<close>

theorem sgd_first_step:
  assumes "grad m = Some g" and "length g = length (params m)"
  shows "sgd_step (sgd_init eta) m =
    (\<lparr>lr = eta, momentum_buffer = Some (map2 (\<lambda>gi pi. gi + sgd_weight_decay * pi) g (params m))\<rparr>,
     m\<lparr>params := map2 (\<lambda>pi gi. pi - eta * ((1 + sgd_momentum) * (gi + sgd_weight_decay * pi)))
                  (params m) g\<rparr>)"
proof -
  have "map2 (\<lambda>pi si. pi - eta * si) p (map (\<lambda>x. x + sgd_momentum * x) (map2 (\<lambda>gi pi. gi + sgd_weight_decay * pi) g p)) =
        map2 (\<lambda>pi gi. pi - eta * ((1 + sgd_momentum) * (gi + sgd_weight_decay * pi))) p g"
    if "length g = length p" for p :: "real list"
    using that by (induction g p rule: list_induct2) (auto simp: algebra_simps)
  with assms show ?thesis by (simp add: sgd_step_def sgd_init_def Let_def map2_self)
qed

theorem sgd_first_step_witness:
  "sgd_step (sgd_init (1 / 10)) \<lparr>params = [1], grad = Some [2], training = True\<rparr> =
    (\<lparr>lr = 1 / 10, momentum_buffer = Some [2 + sgd_weight_decay]\<rparr>,
     \<lparr>params = [1 - 1 / 10 * ((1 + sgd_momentum) * (2 + sgd_weight_decay))], grad = Some [2],
      training = True\<rparr>)"
  using sgd_first_step [of "\<lparr>params = [1], grad = Some [2], training = True\<rparr>" "[2]" "1 / 10"]
  by simp

subsection \<open>The learning-rate schedule\<close>

lemma milestones_Suc:
  "length (filter (\<lambda>m. m \<le> Suc s) milestones) =
     length (filter (\<lambda>m. m \<le> s) milestones) + (if Suc s \<in> set milestones then 1 else 0)"
  by (auto simp: milestones_def)

end
