(* ===== verification/Train.thy ===== *)
theory Train
  imports Gutout Optim
begin

text \<open>
  The training and evaluation loops of \<open>src/src/training/resnet_train_w_gutout.py\<close>.
  \<^item> \<open>train_step\<close> is one iteration of the loop of \<open>train()\<close> (lines 134-161): Gutout
    with the threshold 0.7 written at line 142, \<open>optimizer.zero_grad()\<close>, the forward
    pass on the augmented images, the cross-entropy loss, \<open>backward()\<close> (which adds the
    loss gradient to \<open>.grad\<close>), \<open>optimizer.step()\<close> and the running sums.  The loop's
    locals and the objects it mutates are the record \<open>train_state\<close>;
    \<open>accuracy = None\<close> is the unbound local before the first iteration.
  \<^item> \<open>train_loop\<close> is the \<open>for\<close> loop with its \<open>break\<close> at line 163, after the
    iteration with index \<open>i \<ge> max_num_batches\<close>; \<open>train\<close> (lines 126-166) sets the
    training mode, runs the loop and returns \<open>accuracy\<close> (an \<open>UnboundLocalError\<close> when
    the loader is empty).
  \<^item> \<open>test_loop\<close> and \<open>test\<close> (lines 168-189) evaluate in eval mode without gradients;
    the counter is incremented before the \<open>break\<close> test, and \<open>correct / total\<close>
    (\<open>n_correct\<close> and \<open>n_total\<close> here, the train loop's record has the names) raises \<open>ZeroDivisionError\<close> when no example was seen.
  \<^item> \<open>eq_count\<close> is \<open>(pred == labels).sum()\<close> of line 183 with PyTorch's
    broadcasting: equal lengths compare element-wise, a length-1 side is broadcast
    against the other, any other mismatch raises \<open>RuntimeError\<close>.
  \<^item> \<open>accuracy_spec\<close> is the abstract specification \<open>test\<close> refines on a whole loader.
  A loader is the list of the batches it yields in this epoch.  An exception raised by
  the model or the loss ends the loop with that exception.
\<close>

type_synonym batch = "image list \<times> nat list"

type_synonym grad_cam_fn = "model_state \<Rightarrow> image list \<Rightarrow> fmap list \<times> model_state"

record train_state =
  tmodel :: model_state
  topt :: sgd_state
  xentropy_loss_avg :: pyfloat
  correct :: real
  total :: nat
  accuracy :: "real option"

definition train_step :: "network \<Rightarrow> grad_cam_fn \<Rightarrow> train_state \<Rightarrow> batch \<Rightarrow> py_error + train_state" where
  "train_step net grad_cam st b =
     (case b of (images, labels) \<Rightarrow>
        let (images, m) = get_gutout (tmodel st) grad_cam images (7 / 10);
            m = zero_grad m;
            pred = forward net (training m) (params m) images
        in (case cross_entropy pred labels of
              Inl e \<Rightarrow> Inl e
            | Inr xentropy_loss \<Rightarrow>
                let m = accumulate_grad (loss_param_grad net (training m) (params m) images labels) m;
                    (opt, m) = sgd_step (topt st) m;
                    total' = total st + length labels;
                    correct' = correct st + real (count_matches (map argmax pred) labels)
                in if total' = 0 then Inl ZeroDivisionError
                   else Inr \<lparr>tmodel = m, topt = opt,
                             xentropy_loss_avg = fadd (xentropy_loss_avg st) xentropy_loss,
                             correct = correct', total = total',
                             accuracy = Some (correct' / real total')\<rparr>))"

definition stop_after :: "nat option \<Rightarrow> nat \<Rightarrow> bool" where
  "stop_after max_num_batches i = (case max_num_batches of None \<Rightarrow> False | Some k \<Rightarrow> k \<le> i)"

fun train_loop ::
  "network \<Rightarrow> grad_cam_fn \<Rightarrow> nat option \<Rightarrow> nat \<Rightarrow> batch list \<Rightarrow> train_state \<Rightarrow> py_error + train_state" where
  "train_loop net grad_cam max_num_batches i [] st = Inr st"
| "train_loop net grad_cam max_num_batches i (b # bs) st =
     (case train_step net grad_cam st b of
        Inl e \<Rightarrow> Inl e
      | Inr st' \<Rightarrow>
          if stop_after max_num_batches i then Inr st'
          else train_loop net grad_cam max_num_batches (Suc i) bs st')"

definition train ::
  "network \<Rightarrow> grad_cam_fn \<Rightarrow> model_state \<Rightarrow> sgd_state \<Rightarrow> batch list \<Rightarrow> nat option
   \<Rightarrow> py_error + (real \<times> model_state \<times> sgd_state)" where
  "train net grad_cam model optimizer train_loader max_num_batches =
     (let st0 = \<lparr>tmodel = set_mode True model, topt = optimizer, xentropy_loss_avg = Some 0,
                 correct = 0, total = 0, accuracy = None\<rparr>
      in (case train_loop net grad_cam max_num_batches 0 train_loader st0 of
            Inl e \<Rightarrow> Inl e
          | Inr st \<Rightarrow> (case accuracy st of
                         None \<Rightarrow> Inl UnboundLocalError
                       | Some a \<Rightarrow> Inr (a, tmodel st, topt st))))"

text \<open>
  \<open>eq_count pred labels\<close> is \<open>(pred == labels).sum().item()\<close> of line 183 on the two
  one-dimensional tensors: elementwise when the lengths agree, broadcast when one side
  has length 1, and a \<open>RuntimeError\<close> for any other pair of lengths.
\<close>

definition eq_count :: "nat list \<Rightarrow> nat list \<Rightarrow> py_error + nat" where
  "eq_count pred labels =
     (if length pred = length labels then Inr (count_matches pred labels)
      else if length pred = 1 then Inr (length (filter (\<lambda>y. y = hd pred) labels))
      else if length labels = 1 then Inr (length (filter (\<lambda>p. p = hd labels) pred))
      else Inl RuntimeError)"

fun test_loop ::
  "network \<Rightarrow> model_state \<Rightarrow> nat option \<Rightarrow> nat \<Rightarrow> real \<Rightarrow> nat \<Rightarrow> batch list \<Rightarrow> py_error + real \<times> nat" where
  "test_loop net m max_num_batches i n_correct n_total [] = Inr (n_correct, n_total)"
| "test_loop net m max_num_batches i n_correct n_total ((images, labels) # bs) =
     (let pred = map argmax (forward net (training m) (params m) images);
          n_total' = n_total + length labels
      in (case eq_count pred labels of
            Inl e \<Rightarrow> Inl e
          | Inr c \<Rightarrow>
              let n_correct' = n_correct + real c;
                  i' = Suc i
              in if stop_after max_num_batches i' then Inr (n_correct', n_total')
                 else test_loop net m max_num_batches i' n_correct' n_total' bs))"

definition test :: "network \<Rightarrow> model_state \<Rightarrow> batch list \<Rightarrow> nat option \<Rightarrow> (py_error + real) \<times> model_state" where
  "test net model test_loader max_num_batches =
     (let m = set_mode False model;
          r = (case test_loop net m max_num_batches 0 0 0 test_loader of
                 Inl e \<Rightarrow> Inl e
               | Inr (n_correct, n_total) \<Rightarrow>
                   if n_total = 0 then Inl ZeroDivisionError else Inr (n_correct / real n_total))
      in (r, m))"

definition batch_ok :: "nat \<Rightarrow> batch \<Rightarrow> bool" where
  "batch_ok ncls b \<longleftrightarrow> length (fst b) = length (snd b) \<and> snd b \<noteq> [] \<and>
     list_all (\<lambda>y. y < ncls) (snd b)"

definition acc_inv :: "train_state \<Rightarrow> bool" where
  "acc_inv st \<longleftrightarrow> 0 \<le> correct st \<and> correct st \<le> real (total st) \<and>
     (case accuracy st of None \<Rightarrow> True | Some a \<Rightarrow> 0 \<le> a \<and> a \<le> 1)"

text \<open>
  \<open>test_batches_ok\<close>: every batch of a test loader has as many images as labels.
  \<open>accuracy_spec\<close> is what \<open>test\<close> is meant to compute on the whole test set: the
  fraction of examples \<open>j\<close> of the batches whose predicted class (the index of the
  largest score) is the label, and \<open>ZeroDivisionError\<close> when there is no example.
\<close>

definition test_batches_ok :: "batch list \<Rightarrow> bool" where
  "test_batches_ok loader \<longleftrightarrow> list_all (\<lambda>b. length (fst b) = length (snd b)) loader"

definition batch_correct :: "network \<Rightarrow> model_state \<Rightarrow> batch \<Rightarrow> real" where
  "batch_correct net m b =
     (let scores = forward net (training m) (params m) (fst b); labels = snd b
      in real (length (filter (\<lambda>j. argmax (scores ! j) = labels ! j) [0..<length labels])))"

definition accuracy_spec :: "network \<Rightarrow> model_state \<Rightarrow> batch list \<Rightarrow> py_error + real" where
  "accuracy_spec net m loader =
     (let n_correct = sum_list (map (batch_correct net m) loader);
          n_total = sum_list (map (\<lambda>b. length (snd b)) loader)
      in if n_total = 0 then Inl ZeroDivisionError else Inr (n_correct / real n_total))"

text \<open>
  \<open>plain_train_step\<close> is the training step of the baseline script without Gutout: the
  same statements as lines 144-161 applied to the batch as the loader gives it.
\<close>

definition plain_train_step :: "network \<Rightarrow> train_state \<Rightarrow> batch \<Rightarrow> py_error + train_state" where
  "plain_train_step net st b =
     (case b of (images, labels) \<Rightarrow>
        let m = zero_grad (tmodel st);
            pred = forward net (training m) (params m) images
        in (case cross_entropy pred labels of
              Inl e \<Rightarrow> Inl e
            | Inr xentropy_loss \<Rightarrow>
                let m = accumulate_grad (loss_param_grad net (training m) (params m) images labels) m;
                    (opt, m) = sgd_step (topt st) m;
                    total' = total st + length labels;
                    correct' = correct st + real (count_matches (map argmax pred) labels)
                in if total' = 0 then Inl ZeroDivisionError
                   else Inr \<lparr>tmodel = m, topt = opt,
                             xentropy_loss_avg = fadd (xentropy_loss_avg st) xentropy_loss,
                             correct = correct', total = total',
                             accuracy = Some (correct' / real total')\<rparr>))"

abbreviation dead_net :: network where
  "dead_net \<equiv> demo_net\<lparr>tap_gradient := (\<lambda>mode p imgs ts. map (\<lambda>_. [[[0, 0], [0, 0]]]) imgs)\<rparr>"

lemma class_count_labels:
  "class_count net ncls \<Longrightarrow> list_all (\<lambda>y. y < ncls) labels \<Longrightarrow>
   \<not> list_ex (\<lambda>(p, y). length p \<le> y) (zip (forward net mode q imgs) labels)"
proof
  assume cc: "class_count net ncls" and lab: "list_all (\<lambda>y. y < ncls) labels"
    and "list_ex (\<lambda>(p, y). length p \<le> y) (zip (forward net mode q imgs) labels)"
  then obtain p y where py: "(p, y) \<in> set (zip (forward net mode q imgs) labels)" and le: "length p \<le> y"
    by (auto simp: list_ex_iff)
  from py have "p \<in> set (forward net mode q imgs)" "y \<in> set labels"
    by (auto dest: set_zip_leftD set_zip_rightD)
  with cc lab le show False by (auto simp: class_count_def list_all_iff)
qed

lemma train_step_ok:
  assumes "batch_consistent net c h w" and "class_count net ncls" and "batch_ok ncls b"
  shows "\<exists>st'. train_step net (batch_grad_cam net) st b = Inr st' \<and> total st' = total st + length (snd b)"
proof -
  obtain images labels where b: "b = (images, labels)" by (cases b)
  have ok: "length images = length labels" "labels \<noteq> []" "list_all (\<lambda>y. y < ncls) labels"
    using assms(3) by (simp_all add: b batch_ok_def)
  show ?thesis
    using ok class_count_labels [OF assms(2) ok(3)] get_gutout_length [OF assms(1)]
      batch_consistentD(1) [OF assms(1)]
    by (simp add: b train_step_def cross_entropy_def case_prod_beta Let_def)
qed

lemma train_step_total:
  "train_step net gc st b = Inr st' \<Longrightarrow> total st' = total st + length (snd b)"
  by (cases b) (auto simp: train_step_def Let_def case_prod_beta split: sum.splits if_splits)

lemma train_step_Inr:
  assumes "train_step net gc st b = Inr st'"
  shows "\<exists>cm. cm \<le> length (snd b) \<and> correct st' = correct st + real cm \<and>
           total st' = total st + length (snd b) \<and> 0 < total st' \<and>
           accuracy st' = Some (correct st' / real (total st'))"
proof -
  obtain images labels where b: "b = (images, labels)" by (cases b)
  from assms show ?thesis
    using count_matches_le
    by (fastforce simp: b train_step_def Let_def case_prod_beta split: sum.splits if_splits)
qed

lemma train_step_acc_inv:
  assumes "train_step net gc st b = Inr st'" and "acc_inv st"
  shows "acc_inv st'"
proof -
  obtain cm where cm: "cm \<le> length (snd b)" "correct st' = correct st + real cm"
    "total st' = total st + length (snd b)" "0 < total st'"
    "accuracy st' = Some (correct st' / real (total st'))"
    using train_step_Inr [OF assms(1)] by blast
  have c0: "0 \<le> correct st'" "correct st' \<le> real (total st')"
    using assms(2) cm(1-3) by (auto simp: acc_inv_def)
  then have "correct st' / real (total st') \<le> 1"
    using cm(4) by (simp add: divide_le_eq_1)
  with c0 cm(5) show ?thesis by (simp add: acc_inv_def)
qed
lemma train_loop_ok:
  assumes "batch_consistent net c h w" and "class_count net ncls"
    and "\<forall>b\<in>set loader. batch_ok ncls b" and "i \<le> k"
  shows "\<exists>st'. train_loop net (batch_grad_cam net) (Some k) i loader st = Inr st' \<and>
           total st' = total st + sum_list (map (\<lambda>b. length (snd b)) (take (Suc k - i) loader))"
  using assms(3,4)
proof (induction loader arbitrary: i st)
  case Nil
  then show ?case by simp
next
  case (Cons b bs)
  have "batch_ok ncls b" using Cons.prems(1) by simp
  then obtain st1 where s1: "train_step net (batch_grad_cam net) st b = Inr st1"
    and t1: "total st1 = total st + length (snd b)"
    using train_step_ok [OF assms(1,2)] by blast
  show ?case
  proof (cases "k \<le> i")
    case True
    with Cons.prems(2) have "Suc k - i = Suc 0" by simp
    with True s1 t1 show ?thesis by (simp add: stop_after_def)
  next
    case False
    then have i: "Suc i \<le> k" by simp
    obtain st' where "train_loop net (batch_grad_cam net) (Some k) (Suc i) bs st1 = Inr st'"
      and "total st' = total st1 + sum_list (map (\<lambda>b. length (snd b)) (take (Suc k - Suc i) bs))"
      using Cons.IH [OF _ i, of st1] Cons.prems(1) by auto
    moreover have "Suc k - i = Suc (Suc k - Suc i)" using i by simp
    ultimately show ?thesis using False s1 t1 by (simp add: stop_after_def)
  qed
qed

lemma train_loop_acc_inv:
  "train_loop net gc mx i loader st = Inr st' \<Longrightarrow> acc_inv st \<Longrightarrow> acc_inv st'"
proof (induction loader arbitrary: i st)
  case (Cons b bs)
  then show ?case
    by (auto split: sum.splits if_splits intro: train_step_acc_inv)
qed simp

subsection \<open>The evaluation loop\<close>

lemma eq_count_Inl: "eq_count p l = Inl e \<Longrightarrow> e = RuntimeError"
  by (simp add: eq_count_def split: if_splits)

lemma eq_count_matched: "length p = length l \<Longrightarrow> eq_count p l = Inr (count_matches p l)"
  by (simp add: eq_count_def)

lemma test_batch_len:
  "batch_consistent net c h w \<Longrightarrow> length images = length labels \<Longrightarrow>
   length (map argmax (forward net mode q images)) = length labels"
  by (simp add: batch_consistentD(1))

lemma test_loop_total:
  "(case test_loop net m (Some k) i n_correct n_total loader of
      Inl e \<Rightarrow> e = RuntimeError
    | Inr r \<Rightarrow> snd r = n_total + sum_list (map (\<lambda>b. length (snd b)) (take (max 1 (k - i)) loader)))"
proof (induction loader arbitrary: i n_correct n_total)
  case Nil
  then show ?case by simp
next
  case (Cons b bs)
  obtain images labels where b: "b = (images, labels)" by (cases b)
  let ?p = "map argmax (forward net (training m) (params m) images)"
  show ?case
  proof (cases "eq_count ?p labels")
    case (Inl e)
    then show ?thesis by (simp add: b Let_def eq_count_Inl)
  next
    case (Inr cnt)
    show ?thesis
    proof (cases "k \<le> Suc i")
      case True
      then have "max 1 (k - i) = Suc 0" by simp
      with True Inr show ?thesis by (simp add: b stop_after_def Let_def)
    next
      case False
      then have "max 1 (k - i) = Suc (max 1 (k - Suc i))" by simp
      with False Inr Cons.IH [where i = "Suc i" and n_correct = "n_correct + real cnt" and n_total = "n_total + length labels"]
      show ?thesis by (auto simp: b stop_after_def Let_def add.assoc split: sum.splits)
    qed
  qed
qed

lemma test_loop_nonneg:
  "0 \<le> n_correct \<Longrightarrow>
   (case test_loop net m mx i n_correct n_total loader of Inl e \<Rightarrow> True | Inr r \<Rightarrow> 0 \<le> fst r)"
proof (induction loader arbitrary: i n_correct n_total)
  case Nil
  then show ?case by simp
next
  case (Cons b bs)
  obtain images labels where b: "b = (images, labels)" by (cases b)
  let ?p = "map argmax (forward net (training m) (params m) images)"
  show ?case
  proof (cases "eq_count ?p labels")
    case (Inl e)
    then show ?thesis by (simp add: b Let_def)
  next
    case (Inr cnt)
    have "0 \<le> n_correct + real cnt" using Cons.prems by simp
    with Inr Cons.IH [where i = "Suc i" and n_correct = "n_correct + real cnt" and n_total = "n_total + length labels"] show ?thesis
      by (simp add: b Let_def split: sum.splits)
  qed
qed

lemma test_loop_matched:
  assumes "batch_consistent net c h w"
  shows "test_batches_ok loader \<Longrightarrow> 0 \<le> n_correct \<Longrightarrow> n_correct \<le> real n_total \<Longrightarrow>
    \<exists>r. test_loop net m mx i n_correct n_total loader = Inr r \<and> 0 \<le> fst r \<and> fst r \<le> real (snd r) \<and>
        n_total + (case loader of [] \<Rightarrow> 0 | b # _ \<Rightarrow> length (snd b)) \<le> snd r"
proof (induction loader arbitrary: i n_correct n_total)
  case Nil
  then show ?case by simp
next
  case (Cons b bs)
  obtain images labels where b: "b = (images, labels)" by (cases b)
  let ?p = "map argmax (forward net (training m) (params m) images)"
  have len: "length images = length labels" and oks: "test_batches_ok bs"
    using Cons.prems(1) by (simp_all add: b test_batches_ok_def)
  have eq: "eq_count ?p labels = Inr (count_matches ?p labels)"
    using test_batch_len [OF assms len] by (rule eq_count_matched)
  let ?c = "n_correct + real (count_matches ?p labels)"
  let ?t = "n_total + length labels"
  have c: "0 \<le> ?c" "?c \<le> real ?t"
    using Cons.prems(2,3) count_matches_le [of ?p labels] by simp_all
  show ?case
  proof (cases "stop_after mx (Suc i)")
    case True
    with eq c show ?thesis by (simp add: b Let_def)
  next
    case False
    obtain r where "test_loop net m mx (Suc i) ?c ?t bs = Inr r" "0 \<le> fst r" "fst r \<le> real (snd r)"
      "?t \<le> snd r"
      using Cons.IH [OF oks c, of "Suc i"] by (auto split: list.splits)
    with False eq show ?thesis by (simp add: b Let_def)
  qed
qed

lemma batch_correct_eq:
  assumes "length (forward net (training m) (params m) images) = length labels"
  shows "batch_correct net m (images, labels) =
           real (count_matches (map argmax (forward net (training m) (params m) images)) labels)"
proof -
  let ?s = "forward net (training m) (params m) images"
  have "count_matches (map argmax ?s) labels =
          length (filter (\<lambda>j. map argmax ?s ! j = labels ! j) [0..<length labels])"
    using assms by (simp add: count_matches_nth)
  also have "\<dots> = length (filter (\<lambda>j. argmax (?s ! j) = labels ! j) [0..<length labels])"
    using assms by (intro arg_cong [where f = length] filter_cong) auto
  finally show ?thesis by (simp add: batch_correct_def)
qed

lemma test_loop_all:
  assumes "batch_consistent net c h w"
  shows "test_batches_ok loader \<Longrightarrow>
    test_loop net m None i n_correct n_total loader =
      Inr (n_correct + sum_list (map (batch_correct net m) loader),
           n_total + sum_list (map (\<lambda>b. length (snd b)) loader))"
proof (induction loader arbitrary: i n_correct n_total)
  case Nil
  then show ?case by simp
next
  case (Cons b bs)
  obtain images labels where b: "b = (images, labels)" by (cases b)
  let ?p = "map argmax (forward net (training m) (params m) images)"
  have len: "length images = length labels" and oks: "test_batches_ok bs"
    using Cons.prems by (simp_all add: b test_batches_ok_def)
  have eq: "eq_count ?p labels = Inr (count_matches ?p labels)"
    using test_batch_len [OF assms len] by (rule eq_count_matched)
  have bc: "batch_correct net m b = real (count_matches ?p labels)"
    unfolding b by (rule batch_correct_eq) (simp add: batch_consistentD(1) [OF assms] len)
  show ?case
    using Cons.IH [OF oks] eq bc by (simp add: b Let_def stop_after_def algebra_simps)
qed

lemma test_snd: "snd (test net model loader mx) = set_mode False model"
  by (simp add: test_def Let_def)

lemma test_Inr_cases:
  assumes "fst (test net model loader mx) = Inr a"
  obtains cnt t where "test_loop net (set_mode False model) mx 0 0 0 loader = Inr (cnt, t)"
    and "t \<noteq> 0" and "a = cnt / real t"
  using assms by (auto simp: test_def Let_def split: sum.splits if_splits)

lemma test_nonneg:
  assumes "fst (test net model loader mx) = Inr a"
  shows "0 \<le> a"
proof -
  obtain cnt t where r: "test_loop net (set_mode False model) mx 0 0 0 loader = Inr (cnt, t)"
    and a: "a = cnt / real t"
    using assms by (rule test_Inr_cases)
  have "0 \<le> cnt" using test_loop_nonneg [of 0 net "set_mode False model" mx 0 0 loader] r by simp
  with a show ?thesis by simp
qed

lemma test_le1:
  assumes "batch_consistent net c h w" and "test_batches_ok loader"
    and "fst (test net model loader mx) = Inr a"
  shows "a \<le> 1"
proof -
  obtain cnt t where r: "test_loop net (set_mode False model) mx 0 0 0 loader = Inr (cnt, t)"
    and t: "t \<noteq> 0" and a: "a = cnt / real t"
    using assms(3) by (rule test_Inr_cases)
  obtain r' where "test_loop net (set_mode False model) mx 0 0 0 loader = Inr r'"
    and "fst r' \<le> real (snd r')"
    using test_loop_matched [OF assms(1,2), of 0 0 "set_mode False model" mx 0] by auto
  with r have "cnt \<le> real t" by simp
  with t a show ?thesis by simp
qed

lemma test_Inr:
  assumes "batch_consistent net c h w" and "test_batches_ok loader"
    and "loader \<noteq> []" and "snd (hd loader) \<noteq> []"
  shows "\<exists>a. fst (test net model loader mx) = Inr a"
proof -
  obtain r where r: "test_loop net (set_mode False model) mx 0 0 0 loader = Inr r"
    and t: "(case loader of [] \<Rightarrow> 0 | b # _ \<Rightarrow> length (snd b)) \<le> snd r"
    using test_loop_matched [OF assms(1,2), of 0 0 "set_mode False model" mx 0] by auto
  have "length (snd (hd loader)) \<le> snd r" using t assms(3) by (cases loader) auto
  moreover have "0 < length (snd (hd loader))" using assms(4) by simp
  ultimately have "0 < snd r" by linarith
  with r show ?thesis by (auto simp: test_def Let_def case_prod_beta)
qed

lemma test_loop_mismatch:
  assumes "batch_consistent net c h w" and "length images \<noteq> length labels"
    and "length images \<noteq> 1" and "length labels \<noteq> 1"
  shows "test_loop net m mx i n_correct n_total ((images, labels) # bs) = Inl RuntimeError"
  using assms by (simp add: eq_count_def Let_def batch_consistentD(1) [OF assms(1)])

lemma train_step_bad_label:
  assumes "batch_consistent net c h w" and "class_count net ncls"
    and "length images = length labels" and "y \<in> set labels" and "ncls \<le> y"
  shows "train_step net (batch_grad_cam net) st (images, labels) = Inl IndexError"
proof -
  let ?g = "get_gutout (tmodel st) (batch_grad_cam net) images (7 / 10)"
  let ?m = "zero_grad (snd ?g)"
  let ?pred = "forward net (training ?m) (params ?m) (fst ?g)"
  obtain i where i: "i < length labels" "labels ! i = y"
    using assms(4) by (auto simp: in_set_conv_nth)
  have len: "length ?pred = length labels"
    using assms(3) get_gutout_length [OF assms(1)] by (simp add: batch_consistentD(1) [OF assms(1)])
  have "?pred ! i \<in> set ?pred" using i(1) len by simp
  then have "length (?pred ! i) = ncls" using assms(2) by (simp add: class_count_def)
  then have "cross_entropy ?pred labels = Inl IndexError"
    using cross_entropy_out_of_bounds [OF len i(1)] i(2) assms(5) by simp
  then show ?thesis by (simp add: train_step_def case_prod_beta Let_def)
qed

lemma train_step_lr:
  "train_step net gc st b = Inr st' \<Longrightarrow> lr (topt st') = lr (topt st)"
  by (cases b) (auto simp: train_step_def Let_def case_prod_beta split: sum.splits if_splits)

lemma train_loop_lr:
  "train_loop net gc mx i loader st = Inr st' \<Longrightarrow> lr (topt st') = lr (topt st)"
proof (induction loader arbitrary: i st)
  case (Cons b bs)
  then show ?case
    by (auto split: sum.splits if_splits dest: train_step_lr)
qed simp

lemma train_result:
  assumes "train net gc model optimizer loader mx = Inr (a, model', optimizer')"
  shows "0 \<le> a \<and> a \<le> 1 \<and> lr optimizer' = lr optimizer"
proof -
  let ?st0 = "\<lparr>tmodel = set_mode True model, topt = optimizer, xentropy_loss_avg = Some 0,
               correct = 0, total = 0, accuracy = None\<rparr>"
  obtain st where run: "train_loop net gc mx 0 loader ?st0 = Inr st" and acc: "accuracy st = Some a"
    and opt: "optimizer' = topt st"
    using assms by (auto simp: train_def Let_def split: sum.splits option.splits)
  have "acc_inv ?st0" by (simp add: acc_inv_def)
  with run have "acc_inv st" by (rule train_loop_acc_inv)
  with acc opt train_loop_lr [OF run] show ?thesis by (simp add: acc_inv_def)
qed

lemma train_loop_Inr:
  assumes "batch_consistent net c h w" and "class_count net ncls"
  shows "\<forall>b\<in>set loader. batch_ok ncls b \<Longrightarrow>
    \<exists>st'. train_loop net (batch_grad_cam net) mx i loader st = Inr st' \<and>
          (loader \<noteq> [] \<longrightarrow> accuracy st' \<noteq> None)"
proof (induction loader arbitrary: i st)
  case Nil
  then show ?case by simp
next
  case (Cons b bs)
  from Cons.prems have ok: "batch_ok ncls b" and oks: "\<forall>b\<in>set bs. batch_ok ncls b" by simp_all
  obtain st1 where s1: "train_step net (batch_grad_cam net) st b = Inr st1"
    using train_step_ok [OF assms ok] by blast
  have a1: "accuracy st1 \<noteq> None" using train_step_Inr [OF s1] by auto
  obtain st' where r: "train_loop net (batch_grad_cam net) mx (Suc i) bs st1 = Inr st'"
    and a': "bs \<noteq> [] \<longrightarrow> accuracy st' \<noteq> None"
    using Cons.IH [OF oks, of "Suc i" st1] by blast
  show ?case
  proof (cases "stop_after mx i")
    case True
    with s1 a1 show ?thesis by simp
  next
    case False
    show ?thesis
    proof (cases "bs = []")
      case True
      with s1 a1 False show ?thesis by simp
    next
      case nb: False
      with s1 r a' False show ?thesis by simp
    qed
  qed
qed

lemma train_Inr:
  assumes "batch_consistent net c h w" and "class_count net ncls"
    and "loader \<noteq> []" and "\<forall>b\<in>set loader. batch_ok ncls b"
  shows "\<exists>a m opt. train net (batch_grad_cam net) model optimizer loader mx = Inr (a, m, opt)"
proof -
  let ?st0 = "\<lparr>tmodel = set_mode True model, topt = optimizer, xentropy_loss_avg = Some 0,
               correct = 0, total = 0, accuracy = None\<rparr>"
  obtain st' where "train_loop net (batch_grad_cam net) mx 0 loader ?st0 = Inr st'"
    and "accuracy st' \<noteq> None"
    using train_loop_Inr [OF assms(1,2) assms(4), of mx 0 ?st0] assms(3) by blast
  then show ?thesis by (auto simp: train_def)
qed

lemma train_step_batch_mismatch:
  assumes "batch_consistent net c h w" and "length images \<noteq> length labels"
  shows "train_step net (batch_grad_cam net) st (images, labels) = Inl ValueError"
proof -
  let ?g = "get_gutout (tmodel st) (batch_grad_cam net) images (7 / 10)"
  let ?m = "zero_grad (snd ?g)"
  have "length (forward net (training ?m) (params ?m) (fst ?g)) = length images"
    using get_gutout_length [OF assms(1)] by (simp add: batch_consistentD(1) [OF assms(1)])
  then have "cross_entropy (forward net (training ?m) (params ?m) (fst ?g)) labels = Inl ValueError"
    using assms(2) by (simp add: cross_entropy_def)
  then show ?thesis by (simp add: train_step_def case_prod_beta Let_def)
qed

lemma train_step_empty_batch:
  assumes "batch_consistent net c h w" and "total st = 0"
  shows "train_step net (batch_grad_cam net) st ([], []) = Inl ZeroDivisionError"
proof -
  let ?g = "get_gutout (tmodel st) (batch_grad_cam net) [] (7 / 10)"
  let ?m = "zero_grad (snd ?g)"
  have "length (forward net (training ?m) (params ?m) (fst ?g)) = 0"
    using get_gutout_length [OF assms(1), of "tmodel st" "[]"] by (simp add: batch_consistentD(1) [OF assms(1)])
  with assms(2) show ?thesis
    by (simp add: train_step_def cross_entropy_def case_prod_beta Let_def)
qed

lemmas step_unfold_simps = train_step_def plain_train_step_def get_gutout_snd batch_grad_cam_state
  case_prod_beta Let_def

subsection \<open>Properties of the training and evaluation loops\<close>

text \<open>
  C2: no stray gradient reaches the optimizer.  The Grad-CAM backward pass of
  \<open>get_gutout\<close> deposits parameter gradients into the shared model, and the model may
  hold gradients from before the step; because \<open>optimizer.zero_grad()\<close> (line 144)
  runs after \<open>get_gutout\<close> (line 142), the training step's result does not depend on
  either: it is the same for any gradient left in the model and for any gradient the
  Grad-CAM backward pass produces (spec section 4.1).
\<close>

theorem train_step_no_stray_grad:
  "train_step net (batch_grad_cam net) (st\<lparr>tmodel := (tmodel st)\<lparr>grad := g0\<rparr>\<rparr>) b =
   train_step (net\<lparr>score_param_grad := f\<rparr>) (batch_grad_cam (net\<lparr>score_param_grad := f\<rparr>)) st b"
  by (cases b) (simp add: train_step_def get_gutout_def batch_grad_cam_state case_prod_beta Let_def
      split: sum.split)

text \<open>
  C4: with \<open>max_num_batches = k\<close>, \<open>train\<close>'s loop runs to completion on well-formed
  batches and trains on exactly the first \<open>k + 1\<close> batches of the loader (the
  \<open>break\<close> of line 163 comes after the iteration with index \<open>k\<close>): its example count
  grows by the sizes of those batches.
\<close>

theorem train_loop_batches:
  assumes "batch_consistent net c h w" and "class_count net ncls"
    and "\<forall>b\<in>set loader. batch_ok ncls b"
  shows "\<exists>st'. train_loop net (batch_grad_cam net) (Some k) 0 loader st = Inr st' \<and>
           total st' = total st + sum_list (map (\<lambda>b. length (snd b)) (take (Suc k) loader))"
  using train_loop_ok [OF assms, of 0 k st] by simp

theorem train_loop_batches_witness:
  "\<exists>st'. train_loop demo_net (batch_grad_cam demo_net) (Some 1) 0
          [([[[[1, 2], [3, 4]]]], [0]), ([[[[1, 2], [3, 4]]]], [1]), ([[[[1, 2], [3, 4]]]], [0])]
          \<lparr>tmodel = demo_model, topt = sgd_init (1 / 10), xentropy_loss_avg = Some 0,
           correct = 0, total = 0, accuracy = None\<rparr> = Inr st' \<and> total st' = 2"
proof -
  have h1: "batch_consistent demo_net 0 2 2"
    by (simp add: batch_consistent_def is_tensor_def is_mat_def list_all_iff)
  have h2: "class_count demo_net 2" by (simp add: class_count_def)
  have h3: "\<forall>b\<in>set [([[[[1, 2], [3, 4]]]], [0]), ([[[[1, 2], [3, 4]]]], [1]),
                     ([[[[1, 2], [3, 4]]]], [0::nat])]. batch_ok 2 b"
    by (simp add: batch_ok_def)
  obtain st' where run: "train_loop demo_net (batch_grad_cam demo_net) (Some 1) 0
          [([[[[1, 2], [3, 4]]]], [0]), ([[[[1, 2], [3, 4]]]], [1]), ([[[[1, 2], [3, 4]]]], [0])]
          \<lparr>tmodel = demo_model, topt = sgd_init (1 / 10), xentropy_loss_avg = Some 0,
           correct = 0, total = 0, accuracy = None\<rparr> = Inr st'"
    and cnt: "total st' = 0 + sum_list (map (\<lambda>b. length (snd b)) (take (Suc 1)
          [([[[[1, 2], [3, 4]]]], [0]), ([[[[1, 2], [3, 4]]]], [1]), ([[[[1, 2], [3, 4]]]], [0::nat])]))"
    using train_loop_batches [OF h1 h2 h3, of 1] by fastforce
  have "total st' = 2" using cnt by simp
  with run show ?thesis by blast
qed

text \<open>
  C10: with \<open>max_num_batches = k\<close>, \<open>test\<close>'s loop evaluates exactly the first
  \<open>max 1 k\<close> batches (its counter is incremented before the \<open>break\<close> test of line 186),
  one batch fewer than the training loop evaluates for the same limit when \<open>k \<ge> 1\<close>;
  the only exception it can raise on the way is the \<open>RuntimeError\<close> of line 183.
\<close>

theorem test_loop_batches:
  "(case test_loop net m (Some k) 0 n_correct n_total loader of
      Inl e \<Rightarrow> e = RuntimeError
    | Inr r \<Rightarrow> snd r = n_total + sum_list (map (\<lambda>b. length (snd b)) (take (max 1 k) loader)))"
  using test_loop_total [where i = 0, unfolded diff_zero] .

text \<open>
  C11: the training accuracy that \<open>train\<close> returns is a proportion: when the call
  returns, the value lies in [0, 1] (correct predictions never exceed the examples seen).
\<close>

theorem train_accuracy_bounds:
  assumes "train net gc model optimizer loader mx = Inr (a, model', optimizer')"
  shows "0 \<le> a \<and> a \<le> 1"
  using train_result [OF assms] by simp

theorem train_accuracy_bounds_witness:
  "train demo_net (\<lambda>m imgs. (map (\<lambda>_. [[0]]) imgs, m)) demo_model (sgd_init (1 / 10))
     [([[[[5]]]], [0])] None =
   Inr (1, \<lparr>params = [- (19 / 50)], grad = Some [2], training = True\<rparr>,
        \<lparr>lr = 1 / 10, momentum_buffer = Some [2]\<rparr>) \<and> 0 \<le> (1::real) \<and> (1::real) \<le> 1"
proof -
  have run: "train demo_net (\<lambda>m imgs. (map (\<lambda>_. [[0]]) imgs, m)) demo_model (sgd_init (1 / 10))
     [([[[[5]]]], [0])] None =
   Inr (1, \<lparr>params = [- (19 / 50)], grad = Some [2], training = True\<rparr>,
        \<lparr>lr = 1 / 10, momentum_buffer = Some [2]\<rparr>)"
    by (simp add: train_def train_step_def get_gutout_def generate_batch_gutout_mask_def
        threshold_mask_def gutout_policy_def apply_batch_gutout_mask_def apply_gutout_mask_def
        map2d_def zip2d_def set_mode_def zero_grad_def cross_entropy_def accumulate_grad_def
        sgd_step_def sgd_init_def sgd_weight_decay_def sgd_momentum_def argmax_def count_matches_def
        stop_after_def Let_def)
  show ?thesis using train_accuracy_bounds [OF run] run by simp
qed

text \<open>
  C12: on test batches whose images and labels have the same length, the test
  accuracy that \<open>test\<close> returns lies in [0, 1].  (Without that hypothesis line 183
  broadcasts a single label against all predictions, see C31.)
\<close>

theorem test_accuracy_bounds:
  assumes "batch_consistent net c h w" and "test_batches_ok loader"
    and "fst (test net model loader mx) = Inr a"
  shows "0 \<le> a \<and> a \<le> 1"
  using test_nonneg [OF assms(3)] test_le1 [OF assms] by simp

theorem test_accuracy_bounds_witness:
  "fst (test demo_net demo_model [([[[[5]]]], [0]), ([[[[5]]]], [1])] (Some 2)) = Inr (1 / 2) \<and>
   0 \<le> (1 / 2 :: real) \<and> (1 / 2 :: real) \<le> 1"
proof -
  have run: "fst (test demo_net demo_model [([[[[5]]]], [0]), ([[[[5]]]], [1])] (Some 2)) = Inr (1 / 2)"
    by (simp add: test_def eq_count_def set_mode_def argmax_def count_matches_def stop_after_def Let_def)
  have bc: "batch_consistent demo_net 0 2 2"
    by (simp add: batch_consistent_def is_tensor_def is_mat_def list_all_iff)
  have ok: "test_batches_ok [([[[[5]]]], [0]), ([[[[5]]]], [1])]"
    by (simp add: test_batches_ok_def)
  show ?thesis using test_accuracy_bounds [OF bc ok run] run by simp
qed

text \<open>
  C17: a batch holding a label that is not a class of the classifier head makes the
  cross-entropy loss (line 147) raise \<open>IndexError\<close>, and \<open>train\<close> fails with it.
\<close>

theorem train_bad_label:
  assumes "batch_consistent net c h w" and "class_count net ncls"
    and "length images = length labels" and "y \<in> set labels" and "ncls \<le> y"
  shows "train net (batch_grad_cam net) model optimizer ((images, labels) # bs) mx = Inl IndexError"
  using train_step_bad_label [OF assms] by (simp add: train_def Let_def)

theorem train_bad_label_witness:
  "train demo_net (batch_grad_cam demo_net) demo_model (sgd_init (1 / 10))
     [([[[[1, 2], [3, 4]]]], [57])] (Some 2) = Inl IndexError"
  by (rule train_bad_label [where c = 0 and h = 2 and w = 2 and ncls = 2 and y = 57])
     (simp_all add: batch_consistent_def class_count_def is_tensor_def is_mat_def list_all_iff)

text \<open>
  C25: a training batch with different numbers of images and labels makes the loss
  (line 147) raise \<open>ValueError\<close> (PyTorch's batch-size check), and \<open>train\<close> fails
  with it before any optimizer step.
\<close>

theorem train_batch_mismatch:
  assumes "batch_consistent net c h w" and "length images \<noteq> length labels"
  shows "train net (batch_grad_cam net) model optimizer ((images, labels) # bs) mx = Inl ValueError"
  using train_step_batch_mismatch [OF assms] by (simp add: train_def Let_def)

theorem train_batch_mismatch_witness:
  "train demo_net (batch_grad_cam demo_net) demo_model (sgd_init (1 / 10))
     [([[[[1, 2], [3, 4]]]], [0, 1])] (Some 2) = Inl ValueError"
  by (rule train_batch_mismatch [where c = 0 and h = 2 and w = 2])
     (simp_all add: batch_consistent_def is_tensor_def is_mat_def list_all_iff)

text \<open>
  C26: boundary input.  When the first training batch is empty, the running total is
  still 0 after the step and \<open>accuracy = correct / total\<close> (line 157) raises
  \<open>ZeroDivisionError\<close>, so \<open>train\<close> fails even if later batches are not empty.
\<close>

theorem train_empty_batch:
  assumes "batch_consistent net c h w"
  shows "train net (batch_grad_cam net) model optimizer (([], []) # bs) mx = Inl ZeroDivisionError"
  using train_step_empty_batch [OF assms, where st = "\<lparr>tmodel = set_mode True model, topt = optimizer,
      xentropy_loss_avg = Some 0, correct = 0, total = 0, accuracy = None\<rparr>"]
  by (simp add: train_def Let_def)

theorem train_empty_batch_witness:
  "train demo_net (batch_grad_cam demo_net) demo_model (sgd_init (1 / 10))
     [([], []), ([[[[1, 2], [3, 4]]]], [0])] (Some 2) = Inl ZeroDivisionError"
  by (rule train_empty_batch [where c = 0 and h = 2 and w = 2])
     (simp add: batch_consistent_def is_tensor_def is_mat_def list_all_iff)

text \<open>
  C28: when no normalised Grad-CAM entry of the batch exceeds the hard-coded threshold
  0.7 (which happens only for all-zero maps, e.g. a dead tap layer), Gutout is inert and
  the training step is exactly the plain training step on the original batch.
\<close>

theorem train_step_inert:
  assumes "batch_consistent net c h w" and "list_all (is_tensor (Suc k) H W) images" and "0 < H"
    and "\<forall>n<length images. all2d (\<lambda>x. x \<le> 7 / 10) (fst (batch_grad_cam net (tmodel st) images) ! n)"
  shows "train_step net (batch_grad_cam net) st (images, labels) = plain_train_step net st (images, labels)"
  using get_gutout_no_cut [OF assms] by (simp add: step_unfold_simps split: sum.split)

theorem train_step_inert_witness:
  "train_step dead_net (batch_grad_cam dead_net)
     \<lparr>tmodel = demo_model, topt = sgd_init (1 / 10), xentropy_loss_avg = Some 0, correct = 0, total = 0,
      accuracy = None\<rparr> (demo_images, [0, 1]) =
   plain_train_step dead_net
     \<lparr>tmodel = demo_model, topt = sgd_init (1 / 10), xentropy_loss_avg = Some 0, correct = 0, total = 0,
      accuracy = None\<rparr> (demo_images, [0, 1])"
proof -
  have cams: "\<forall>n<length demo_images.
      all2d (\<lambda>x. x \<le> 7 / 10) (fst (batch_grad_cam dead_net demo_model demo_images) ! n)"
    by (simp add: cam_eval_simps less_Suc_eq numeral_2_eq_2)
  show ?thesis
    by (rule train_step_inert [where c = 0 and h = 2 and w = 2 and k = 0 and H = 2 and W = 2])
       (use cams in \<open>simp_all add: batch_consistent_def is_tensor_def is_mat_def list_all_iff\<close>)
qed

text \<open>
  C29: without a batch limit (\<open>--smoke_test 0\<close>, \<open>max_num_batches = None\<close>), the
  training loop runs to completion on well-formed batches and trains on every batch
  of the loader: the break of line 163 is never taken.
\<close>

theorem train_loop_all_batches:
  assumes "batch_consistent net c h w" and "class_count net ncls"
    and "\<forall>b\<in>set loader. batch_ok ncls b"
  shows "\<exists>st'. train_loop net (batch_grad_cam net) None i loader st = Inr st' \<and>
           total st' = total st + sum_list (map (\<lambda>b. length (snd b)) loader)"
  using assms(3)
proof (induction loader arbitrary: i st)
  case Nil
  then show ?case by simp
next
  case (Cons b bs)
  from Cons.prems have ok: "batch_ok ncls b" and oks: "\<forall>b\<in>set bs. batch_ok ncls b" by simp_all
  obtain st1 where s1: "train_step net (batch_grad_cam net) st b = Inr st1"
    and t1: "total st1 = total st + length (snd b)"
    using train_step_ok [OF assms(1,2) ok] by blast
  obtain st' where "train_loop net (batch_grad_cam net) None (Suc i) bs st1 = Inr st'"
    and "total st' = total st1 + sum_list (map (\<lambda>b. length (snd b)) bs)"
    using Cons.IH [OF oks] by blast
  with s1 t1 show ?case by (simp add: stop_after_def)
qed

theorem train_loop_all_batches_witness:
  "\<exists>st'. train_loop demo_net (batch_grad_cam demo_net) None 0
          [([[[[1, 2], [3, 4]]]], [0]), ([[[[1, 2], [3, 4]]]], [1]), ([[[[1, 2], [3, 4]]]], [0])]
          \<lparr>tmodel = demo_model, topt = sgd_init (1 / 10), xentropy_loss_avg = Some 0,
           correct = 0, total = 0, accuracy = None\<rparr> = Inr st' \<and> total st' = 3"
proof -
  have h1: "batch_consistent demo_net 0 2 2"
    by (simp add: batch_consistent_def is_tensor_def is_mat_def list_all_iff)
  have h2: "class_count demo_net 2" by (simp add: class_count_def)
  have h3: "\<forall>b\<in>set [([[[[1, 2], [3, 4]]]], [0]), ([[[[1, 2], [3, 4]]]], [1]),
                     ([[[[1, 2], [3, 4]]]], [0::nat])]. batch_ok 2 b"
    by (simp add: batch_ok_def)
  obtain st' where run: "train_loop demo_net (batch_grad_cam demo_net) None 0
          [([[[[1, 2], [3, 4]]]], [0]), ([[[[1, 2], [3, 4]]]], [1]), ([[[[1, 2], [3, 4]]]], [0])]
          \<lparr>tmodel = demo_model, topt = sgd_init (1 / 10), xentropy_loss_avg = Some 0,
           correct = 0, total = 0, accuracy = None\<rparr> = Inr st'"
    and cnt: "total st' = 0 + sum_list (map (\<lambda>b. length (snd b))
          [([[[[1, 2], [3, 4]]]], [0]), ([[[[1, 2], [3, 4]]]], [1]), ([[[[1, 2], [3, 4]]]], [0::nat])])"
    using train_loop_all_batches [OF h1 h2 h3, of 0] by fastforce
  have "total st' = 3" using cnt by simp
  with run show ?thesis by blast
qed

text \<open>
  C23: without a batch limit, \<open>test\<close> refines its abstract specification: on test
  batches whose images and labels have the same length, the accuracy it returns (or the
  \<open>ZeroDivisionError\<close> it raises) is the one \<open>accuracy_spec\<close> computes on the
  eval-mode model from every batch of the loader, each example counted once.
\<close>

theorem test_refines_spec:
  assumes "batch_consistent net c h w" and "test_batches_ok loader"
  shows "fst (test net model loader None) = accuracy_spec net (set_mode False model) loader"
  using test_loop_all [OF assms, of "set_mode False model" 0 0 0]
  by (simp add: test_def accuracy_spec_def Let_def)

theorem test_refines_spec_witness:
  "fst (test demo_net demo_model [([[[[5]]]], [0]), ([[[[5]]]], [1])] None) =
   accuracy_spec demo_net (set_mode False demo_model) [([[[[5]]]], [0]), ([[[[5]]]], [1])]"
proof -
  have bc: "batch_consistent demo_net 0 2 2"
    by (simp add: batch_consistent_def is_tensor_def is_mat_def list_all_iff)
  have ok: "test_batches_ok [([[[[5]]]], [0]), ([[[[5]]]], [1])]"
    by (simp add: test_batches_ok_def)
  show ?thesis by (rule test_refines_spec [OF bc ok])
qed

text \<open>
  C30: a test batch whose numbers of predictions and labels differ, neither being 1,
  makes the comparison \<open>pred == labels\<close> of line 183 raise \<open>RuntimeError\<close> (the
  shapes do not broadcast), and \<open>test\<close> fails with it whatever follows.
\<close>

theorem test_batch_mismatch:
  assumes "batch_consistent net c h w" and "length images \<noteq> length labels"
    and "length images \<noteq> 1" and "length labels \<noteq> 1"
  shows "fst (test net model ((images, labels) # bs) mx) = Inl RuntimeError"
  using test_loop_mismatch [OF assms, where m = "set_mode False model" and i = 0]
  by (simp add: test_def Let_def del: test_loop.simps)

theorem test_batch_mismatch_witness:
  "fst (test demo_net demo_model [([[[[5]]], [[[6]]]], [0, 0, 0])] (Some 2)) = Inl RuntimeError"
  by (rule test_batch_mismatch [where c = 0 and h = 2 and w = 2])
     (simp_all add: batch_consistent_def is_tensor_def is_mat_def list_all_iff)

text \<open>
  C31: a test batch with several images and a single label is not an error: line 183
  broadcasts the label against every prediction, so the batch counts as many correct
  predictions as there are images predicted to be that label, against a total of 1
  (line 182 counts labels).  The returned accuracy is then that count, which can exceed 1.
\<close>

theorem test_broadcast_label:
  assumes "batch_consistent net c h w"
  shows "fst (test net model [(images, [y])] mx) =
           Inr (real (length (filter (\<lambda>p. p = y)
              (map argmax (forward net False (params model) images)))))"
proof -
  have "length (map argmax (forward net False (params model) images)) = length images"
    by (simp add: batch_consistentD(1) [OF assms])
  then show ?thesis
    by (cases "length images = 1")
       (auto simp: test_def eq_count_def count_matches_def set_mode_def stop_after_def
         Let_def length_Suc_conv split: option.split)
qed

theorem test_broadcast_label_witness:
  "fst (test demo_net demo_model [([[[[5]]], [[[6]]]], [0])] None) = Inr 2"
  using test_broadcast_label [of demo_net 0 2 2 demo_model "[[[[5]]], [[[6]]]]" 0 None]
  by (simp add: batch_consistent_def is_tensor_def is_mat_def list_all_iff argmax_def)

end
