(* ===== verification/Config.thy ===== *)
theory Config
  imports Prelude
begin

text \<open>
  Command-line configuration of \<open>src/src/training/resnet_train_w_gutout.py\<close>
  (lines 34-91).  \<open>args\<close> is the \<open>argparse.Namespace\<close> with one field per option
  (\<open>--model\<close> is \<open>model_name\<close> and \<open>--length\<close> is \<open>hole_length\<close>, since \<open>model\<close> and
  \<open>length\<close> are taken), \<open>default_args\<close> the values the parser gives when no option is
  passed (lines 37-73), \<open>store_true\<close> the \<open>action='store_true'\<close> rule, and
  \<open>configure\<close> the post-processing of lines 77-83: the smoke-test override of the batch
  size, the epochs and the batch limit, and \<open>args.cuda\<close>.  \<open>num_classes\<close> is the
  constant of line 95 and \<open>test_id\<close> the run name of line 114 that names the CSV log
  and the checkpoint file.
\<close>

definition model_options :: "string list" where
  "model_options = [''resnet18'']"

definition dataset_options :: "string list" where
  "dataset_options = [''cifar10'', ''cifar100'', ''svhn'']"

record args =
  dataset :: string
  model_name :: string
  batch_size :: int
  num_workers :: int
  smoke_test :: int
  epochs :: int
  learning_rate :: real
  data_augmentation :: bool
  cutout :: bool
  n_holes :: int
  hole_length :: int
  use_cuda :: bool
  seed :: int
  gutout :: bool
  model_path :: string
  threshold :: real
  cuda :: bool

definition store_true :: "bool \<Rightarrow> bool \<Rightarrow> bool" where
  "store_true dflt present = (if present then True else dflt)"

definition default_args :: args where
  "default_args =
     \<lparr>dataset = ''cifar10'', model_name = ''resnet18'', batch_size = 128, num_workers = 0,
      smoke_test = 1, epochs = 20, learning_rate = 1 / 10,
      data_augmentation = store_true False False, cutout = store_true False False,
      n_holes = 1, hole_length = 16, use_cuda = store_true False False, seed = 0,
      gutout = store_true True False, model_path = ''gutout'' @ [CHR 0x5C] @ ''basic_scripts'' @ [CHR 0x5C] @ ''model.pt'',
      threshold = 9 / 10, cuda = False\<rparr>"

definition valid_choices :: "args \<Rightarrow> bool" where
  "valid_choices a \<longleftrightarrow> dataset a \<in> set dataset_options \<and> model_name a \<in> set model_options"

definition configure :: "args \<Rightarrow> args \<times> nat option" where
  "configure a =
     (let (a, max_num_batches) =
        (if smoke_test a = 1 then (a\<lparr>batch_size := 2, epochs := 3\<rparr>, Some 2) else (a, None))
      in (a\<lparr>cuda := use_cuda a\<rparr>, max_num_batches))"

definition num_classes :: nat where
  "num_classes = 10"

definition test_id :: "args \<Rightarrow> string" where
  "test_id a = dataset a @ ''_'' @ model_name a"

lemma configure_smoke:
  "smoke_test a = 1 \<Longrightarrow>
   configure a = (a\<lparr>batch_size := 2, epochs := 3, cuda := use_cuda a\<rparr>, Some 2)"
  by (simp add: configure_def)

lemma configure_full:
  "smoke_test a \<noteq> 1 \<Longrightarrow> configure a = (a\<lparr>cuda := use_cuda a\<rparr>, None)"
  by (simp add: configure_def)

lemma configure_keeps [simp]:
  "dataset (fst (configure a)) = dataset a" "model_name (fst (configure a)) = model_name a"
  "learning_rate (fst (configure a)) = learning_rate a" "threshold (fst (configure a)) = threshold a"
  by (simp_all add: configure_def split: prod.splits)

end
