(* ===== verification/Driver.thy ===== *)
theory Driver
  imports Train Config
begin

text \<open>
  The script's top level (lines 75-213): \<open>main\<close> post-processes the arguments
  (\<open>configure\<close>), builds the model state, the SGD optimizer from \<open>args.learning_rate\<close>
  (lines 103-104), the scheduler counter and the Grad-CAM object on the model
  (line 195), and runs \<open>for epoch in range(args.epochs)\<close> (\<open>run_epochs\<close>).  One epoch
  (\<open>run_epoch\<close>, lines 199-210) trains, tests, compares the test accuracy with
  \<open>best_acc\<close>, steps the scheduler, appends the CSV row and saves the parameters to
  \<open>checkpoints/<test_id>.pth\<close> when \<open>is_best\<close>.  \<open>run_state\<close> holds what survives
  between epochs: the model, the optimizer, the scheduler's epoch counter,
  \<open>best_acc\<close>, the CSV rows written (epoch, train accuracy, test accuracy) and the
  checkpoint files as a map from path to saved parameters.  The data loaders are
  functions from the epoch to the batches the loader yields in that epoch; the model's
  initial parameters are an input (the ResNet's initialisation is not modelled).
\<close>

record run_state =
  rmodel :: model_state
  ropt :: sgd_state
  sched_epoch :: nat
  best_acc :: real
  csv_rows :: "(nat \<times> real \<times> real) list"
  checkpoints :: "string \<rightharpoonup> real list"

definition checkpoint_path :: "string \<Rightarrow> string" where
  "checkpoint_path tid = ''checkpoints/'' @ tid @ ''.pth''"

definition run_epoch ::
  "network \<Rightarrow> grad_cam_fn \<Rightarrow> string \<Rightarrow> (nat \<Rightarrow> batch list) \<Rightarrow> (nat \<Rightarrow> batch list) \<Rightarrow> nat option
   \<Rightarrow> run_state \<Rightarrow> nat \<Rightarrow> py_error + run_state" where
  "run_epoch net grad_cam tid train_loader test_loader max_num_batches rs epoch =
     (case train net grad_cam (rmodel rs) (ropt rs) (train_loader epoch) max_num_batches of
        Inl e \<Rightarrow> Inl e
      | Inr (train_accuracy, m, opt) \<Rightarrow>
          (case test net m (test_loader epoch) max_num_batches of
             (Inl e, _) \<Rightarrow> Inl e
           | (Inr test_acc, m) \<Rightarrow>
               let is_best = best_acc rs < test_acc;
                   (last_epoch, opt) = sched_step (sched_epoch rs) opt;
                   row = (epoch, train_accuracy, test_acc)
               in Inr \<lparr>rmodel = m, ropt = opt, sched_epoch = last_epoch, best_acc = best_acc rs,
                       csv_rows = csv_rows rs @ [row],
                       checkpoints = (if is_best then (checkpoints rs)(checkpoint_path tid \<mapsto> params m)
                                      else checkpoints rs)\<rparr>))"

fun run_epochs ::
  "network \<Rightarrow> grad_cam_fn \<Rightarrow> string \<Rightarrow> (nat \<Rightarrow> batch list) \<Rightarrow> (nat \<Rightarrow> batch list) \<Rightarrow> nat option
   \<Rightarrow> nat list \<Rightarrow> run_state \<Rightarrow> py_error + run_state" where
  "run_epochs net grad_cam tid train_loader test_loader max_num_batches [] rs = Inr rs"
| "run_epochs net grad_cam tid train_loader test_loader max_num_batches (epoch # es) rs =
     (case run_epoch net grad_cam tid train_loader test_loader max_num_batches rs epoch of
        Inl e \<Rightarrow> Inl e
      | Inr rs' \<Rightarrow> run_epochs net grad_cam tid train_loader test_loader max_num_batches es rs')"

definition main ::
  "args \<Rightarrow> network \<Rightarrow> real list \<Rightarrow> (nat \<Rightarrow> batch list) \<Rightarrow> (nat \<Rightarrow> batch list) \<Rightarrow> py_error + run_state" where
  "main args0 net init_params train_loader test_loader =
     (let (a, max_num_batches) = configure args0;
          model = \<lparr>params = init_params, grad = None, training = True\<rparr>;
          optimizer = sgd_init (learning_rate a);
          grad_cam = batch_grad_cam net
      in run_epochs net grad_cam (test_id a) train_loader test_loader max_num_batches
           [0..<nat (epochs a)]
           \<lparr>rmodel = model, ropt = optimizer, sched_epoch = 0, best_acc = -1, csv_rows = [],
            checkpoints = Map.empty\<rparr>)"

abbreviation demo_loader :: "nat \<Rightarrow> batch list" where
  "demo_loader \<equiv> \<lambda>_. [([[[[1, 2], [3, 4]]]], [0])]"

abbreviation demo_net10 :: network where
  "demo_net10 \<equiv> demo_net\<lparr>forward := (\<lambda>mode p imgs. map (\<lambda>_. replicate num_classes 0) imgs)\<rparr>"

text \<open>
  The epoch loop as a step relation: \<open>run_reach \<dots> rs0 rs\<close> holds when \<open>rs\<close> is reached
  from \<open>rs0\<close> by completed epochs with any epoch numbers; \<open>run_inv\<close> is the invariant
  the reachable states keep.
\<close>

inductive run_reach ::
  "network \<Rightarrow> grad_cam_fn \<Rightarrow> string \<Rightarrow> (nat \<Rightarrow> batch list) \<Rightarrow> (nat \<Rightarrow> batch list) \<Rightarrow> nat option
   \<Rightarrow> run_state \<Rightarrow> run_state \<Rightarrow> bool"
  for net grad_cam tid train_loader test_loader max_num_batches rs0 where
  reach_init: "run_reach net grad_cam tid train_loader test_loader max_num_batches rs0 rs0"
| reach_epoch: "run_reach net grad_cam tid train_loader test_loader max_num_batches rs0 rs \<Longrightarrow>
    run_epoch net grad_cam tid train_loader test_loader max_num_batches rs epoch = Inr rs' \<Longrightarrow>
    run_reach net grad_cam tid train_loader test_loader max_num_batches rs0 rs'"

definition run_inv :: "string \<Rightarrow> real \<Rightarrow> run_state \<Rightarrow> bool" where
  "run_inv tid lr0 rs \<longleftrightarrow> best_acc rs = -1 \<and> sched_epoch rs = length (csv_rows rs) \<and>
     list_all (\<lambda>(e, ta, te). 0 \<le> ta \<and> ta \<le> 1 \<and> 0 \<le> te \<and> te \<le> 1) (csv_rows rs) \<and>
     lr (ropt rs) = lr0 * sched_gamma ^ length (filter (\<lambda>m. m \<le> sched_epoch rs) milestones) \<and>
     checkpoints rs = (if csv_rows rs = [] then Map.empty
                       else [checkpoint_path tid \<mapsto> params (rmodel rs)])"

text \<open>
  \<open>loaders_ok\<close>: every epoch's training loader yields at least one batch, each with as
  many images as labels, at least one label and every label a class of the head; every
  epoch's test loader yields a first batch with at least one label, and each of its
  batches has as many images as labels.
\<close>

definition loaders_ok :: "nat \<Rightarrow> (nat \<Rightarrow> batch list) \<Rightarrow> (nat \<Rightarrow> batch list) \<Rightarrow> bool" where
  "loaders_ok ncls train_loader test_loader \<longleftrightarrow>
     (\<forall>e. train_loader e \<noteq> [] \<and> list_all (batch_ok ncls) (train_loader e) \<and>
          test_loader e \<noteq> [] \<and> snd (hd (test_loader e)) \<noteq> [] \<and> test_batches_ok (test_loader e))"

subsection \<open>Epoch lemmas\<close>

lemma run_epoch_Inr:
  assumes "run_epoch net gc tid trl tel mx rs epoch = Inr rs'"
  shows "\<exists>ta te. 0 \<le> ta \<and> ta \<le> 1 \<and> 0 \<le> te \<and>
     (batch_consistent net c h w \<longrightarrow> test_batches_ok (tel epoch) \<longrightarrow> te \<le> 1) \<and>
     best_acc rs' = best_acc rs \<and> csv_rows rs' = csv_rows rs @ [(epoch, ta, te)] \<and>
     sched_epoch rs' = Suc (sched_epoch rs) \<and>
     lr (ropt rs') = (if Suc (sched_epoch rs) \<in> set milestones then lr (ropt rs) * sched_gamma
                      else lr (ropt rs)) \<and>
     checkpoints rs' = (if best_acc rs < te
                        then (checkpoints rs)(checkpoint_path tid \<mapsto> params (rmodel rs'))
                        else checkpoints rs)"
proof -
  obtain ta m opt where tr: "train net gc (rmodel rs) (ropt rs) (trl epoch) mx = Inr (ta, m, opt)"
    using assms by (auto simp: run_epoch_def split: sum.splits)
  obtain te where ts: "fst (test net m (tel epoch) mx) = Inr te"
    using assms tr by (auto simp: run_epoch_def split: sum.splits prod.splits)
  have tsp: "test net m (tel epoch) mx = (Inr te, set_mode False m)"
    using ts test_snd [of net m "tel epoch" mx] by (metis prod.collapse)
  have rs': "rs' = \<lparr>rmodel = set_mode False m, ropt = snd (sched_step (sched_epoch rs) opt),
                   sched_epoch = Suc (sched_epoch rs), best_acc = best_acc rs,
                   csv_rows = csv_rows rs @ [(epoch, ta, te)],
                   checkpoints = (if best_acc rs < te
                                  then (checkpoints rs)(checkpoint_path tid \<mapsto> params m)
                                  else checkpoints rs)\<rparr>"
    using assms by (auto simp: run_epoch_def tr tsp Let_def sched_step_def)
  show ?thesis
    using train_result [OF tr] test_nonneg [OF ts] test_le1 [OF _ _ ts]
    by (auto simp: rs' sched_step_def Let_def set_mode_def)
qed

lemma milestones_split:
  "length (filter (\<lambda>m. s < m \<and> m \<le> t) milestones) =
     (if Suc s \<in> set milestones \<and> Suc s \<le> t then 1 else 0) +
     length (filter (\<lambda>m. Suc s < m \<and> m \<le> t) milestones)"
  by (auto simp: milestones_def)

lemma run_epochs_sched:
  "run_epochs net gc tid trl tel mx es rs = Inr rs' \<Longrightarrow>
   sched_epoch rs' = sched_epoch rs + length es \<and>
   lr (ropt rs') = lr (ropt rs) *
     sched_gamma ^ length (filter (\<lambda>m. sched_epoch rs < m \<and> m \<le> sched_epoch rs + length es) milestones)"
proof (induction es arbitrary: rs)
  case Nil
  then show ?case by simp
next
  case (Cons e es)
  from Cons.prems obtain rs1 where r1: "run_epoch net gc tid trl tel mx rs e = Inr rs1"
    and rest: "run_epochs net gc tid trl tel mx es rs1 = Inr rs'"
    by (auto split: sum.splits)
  from run_epoch_Inr [OF r1, where c = 0 and h = 0 and w = 0] have s1: "sched_epoch rs1 = Suc (sched_epoch rs)"
    and l1: "lr (ropt rs1) = (if Suc (sched_epoch rs) \<in> set milestones
                               then lr (ropt rs) * sched_gamma else lr (ropt rs))"
    by auto
  from Cons.IH [OF rest] s1 l1 milestones_split [of "sched_epoch rs" "sched_epoch rs + length (e # es)"]
  show ?case by (auto simp: power_add)
qed

lemma run_epochs_rows:
  "run_epochs net gc tid trl tel mx es rs = Inr rs' \<Longrightarrow>
   \<exists>rows. csv_rows rs' = csv_rows rs @ rows \<and> map fst rows = es \<and>
     (\<forall>r\<in>set rows. 0 \<le> fst (snd r) \<and> fst (snd r) \<le> 1 \<and> 0 \<le> snd (snd r) \<and>
        (batch_consistent net c h w \<longrightarrow> (\<forall>e. test_batches_ok (tel e)) \<longrightarrow> snd (snd r) \<le> 1)) \<and>
     best_acc rs' = best_acc rs \<and>
     (best_acc rs < 0 \<longrightarrow> checkpoints rs' = (if es = [] then checkpoints rs
                          else (checkpoints rs)(checkpoint_path tid \<mapsto> params (rmodel rs'))))"
proof (induction es arbitrary: rs)
  case Nil
  then show ?case by simp
next
  case (Cons e es)
  from Cons.prems obtain rs1 where r1: "run_epoch net gc tid trl tel mx rs e = Inr rs1"
    and rest: "run_epochs net gc tid trl tel mx es rs1 = Inr rs'"
    by (auto split: sum.splits)
  from run_epoch_Inr [OF r1, where c = c and h = h and w = w] obtain ta te where
    b: "0 \<le> ta" "ta \<le> 1" "0 \<le> te"
      "batch_consistent net c h w \<longrightarrow> test_batches_ok (tel e) \<longrightarrow> te \<le> 1"
    and ba: "best_acc rs1 = best_acc rs"
    and rows1: "csv_rows rs1 = csv_rows rs @ [(e, ta, te)]"
    and ck1: "checkpoints rs1 = (if best_acc rs < te
               then (checkpoints rs)(checkpoint_path tid \<mapsto> params (rmodel rs1)) else checkpoints rs)"
    by blast
  from Cons.IH [OF rest] obtain rows where
    "csv_rows rs' = csv_rows rs1 @ rows" "map fst rows = es"
    "\<forall>r\<in>set rows. 0 \<le> fst (snd r) \<and> fst (snd r) \<le> 1 \<and> 0 \<le> snd (snd r) \<and>
       (batch_consistent net c h w \<longrightarrow> (\<forall>e. test_batches_ok (tel e)) \<longrightarrow> snd (snd r) \<le> 1)"
    "best_acc rs' = best_acc rs1"
    "best_acc rs1 < 0 \<longrightarrow> checkpoints rs' = (if es = [] then checkpoints rs1
        else (checkpoints rs1)(checkpoint_path tid \<mapsto> params (rmodel rs')))"
    by blast
  moreover have "es = [] \<Longrightarrow> rs' = rs1" using rest by simp
  ultimately show ?case using b ba rows1 ck1
    by (intro exI [of _ "(e, ta, te) # rows"]) auto
qed

lemma main_run:
  "main a net p trl tel =
     run_epochs net (batch_grad_cam net) (test_id a) trl tel (snd (configure a))
       [0..<nat (epochs (fst (configure a)))]
       \<lparr>rmodel = \<lparr>params = p, grad = None, training = True\<rparr>, ropt = sgd_init (learning_rate a),
        sched_epoch = 0, best_acc = -1, csv_rows = [], checkpoints = Map.empty\<rparr>"
  by (simp add: main_def test_id_def case_prod_beta Let_def)

lemmas demo_eval_simps = cam_eval_simps configure_def default_args_def store_true_def sgd_init_def
  run_epoch_def train_def train_step_def test_def set_mode_def zero_grad_def
  cross_entropy_def accumulate_grad_def sgd_step_def sgd_weight_decay_def sgd_momentum_def
  count_matches_def eq_count_def stop_after_def sched_step_def milestones_def Let_def upt_rec

lemma demo_main_runs:
  "\<exists>rs. main default_args demo_net [0] demo_loader demo_loader = Inr rs"
  by (simp add: main_def demo_eval_simps)

lemma run_epoch_ok:
  assumes "batch_consistent net c h w" and "class_count net ncls" and "loaders_ok ncls trl tel"
  shows "\<exists>rs'. run_epoch net (batch_grad_cam net) tid trl tel mx rs e = Inr rs'"
proof -
  from assms(3) have tr: "trl e \<noteq> []" "\<forall>b\<in>set (trl e). batch_ok ncls b"
    and te: "test_batches_ok (tel e)" "tel e \<noteq> []" "snd (hd (tel e)) \<noteq> []"
    by (auto simp: loaders_ok_def list_all_iff)
  obtain a m opt where t: "train net (batch_grad_cam net) (rmodel rs) (ropt rs) (trl e) mx = Inr (a, m, opt)"
    using train_Inr [OF assms(1,2) tr] by blast
  obtain ta where v: "fst (test net m (tel e) mx) = Inr ta"
    using test_Inr [OF assms(1) te] by blast
  then show ?thesis by (simp add: run_epoch_def t Let_def case_prod_beta)
qed

lemma run_epochs_ok:
  assumes "batch_consistent net c h w" and "class_count net ncls" and "loaders_ok ncls trl tel"
  shows "\<exists>rs'. run_epochs net (batch_grad_cam net) tid trl tel mx es rs = Inr rs'"
proof (induction es arbitrary: rs)
  case (Cons e es)
  obtain rs1 where "run_epoch net (batch_grad_cam net) tid trl tel mx rs e = Inr rs1"
    using run_epoch_ok [OF assms] by blast
  with Cons.IH [of rs1] show ?case by simp
qed simp

lemma run_epochs_reach:
  "run_reach net gc tid trl tel mx rs0 rs \<Longrightarrow> run_epochs net gc tid trl tel mx es rs = Inr rs' \<Longrightarrow>
   run_reach net gc tid trl tel mx rs0 rs'"
proof (induction es arbitrary: rs)
  case (Cons e es)
  then obtain rs1 where r1: "run_epoch net gc tid trl tel mx rs e = Inr rs1"
    and rest: "run_epochs net gc tid trl tel mx es rs1 = Inr rs'"
    by (auto split: sum.splits)
  from Cons.prems(1) r1 have "run_reach net gc tid trl tel mx rs0 rs1" by (rule reach_epoch)
  then show ?case using rest by (rule Cons.IH)
qed simp

lemma run_epoch_inv:
  assumes "run_epoch net gc tid trl tel mx rs epoch = Inr rs'" and "run_inv tid lr0 rs"
    and "batch_consistent net c h w" and "test_batches_ok (tel epoch)"
  shows "run_inv tid lr0 rs'"
proof -
  from run_epoch_Inr [OF assms(1), where c = c and h = h and w = w] assms(3,4) obtain ta te where
    b: "0 \<le> ta" "ta \<le> 1" "0 \<le> te" "te \<le> 1" and ba: "best_acc rs' = best_acc rs"
    and rows: "csv_rows rs' = csv_rows rs @ [(epoch, ta, te)]"
    and se: "sched_epoch rs' = Suc (sched_epoch rs)"
    and l: "lr (ropt rs') = (if Suc (sched_epoch rs) \<in> set milestones then lr (ropt rs) * sched_gamma
                             else lr (ropt rs))"
    and ck: "checkpoints rs' = (if best_acc rs < te
               then (checkpoints rs)(checkpoint_path tid \<mapsto> params (rmodel rs')) else checkpoints rs)"
    by blast
  with assms(2) show ?thesis
    by (auto simp: run_inv_def milestones_Suc power_add)
qed

text \<open>
  C3: \<open>best_acc\<close> is never updated (line 201 compares with it, nothing assigns it), so
  every epoch's test accuracy beats the initial -1 and the model is saved at every
  epoch: after a run of at least one epoch \<open>best_acc\<close> is still -1 and the only
  checkpoint file holds the parameters of the last epoch, not those of the epoch with
  the best test accuracy.
\<close>

theorem main_checkpoint_last:
  assumes "main a net p trl tel = Inr rs" and "0 < epochs (fst (configure a))"
  shows "best_acc rs = -1 \<and> checkpoints rs = [checkpoint_path (test_id a) \<mapsto> params (rmodel rs)]"
  using run_epochs_rows [OF assms(1) [unfolded main_run], where c = 0 and h = 0 and w = 0] assms(2) by auto

theorem main_checkpoint_last_witness:
  "\<exists>rs. main default_args demo_net [0] demo_loader demo_loader = Inr rs \<and>
     0 < epochs (fst (configure default_args)) \<and>
     best_acc rs = -1 \<and> checkpoints rs = [checkpoint_path (test_id default_args) \<mapsto> params (rmodel rs)]"
proof -
  obtain rs where r: "main default_args demo_net [0] demo_loader demo_loader = Inr rs"
    using demo_main_runs by blast
  have e: "0 < epochs (fst (configure default_args))"
    by (simp add: configure_def default_args_def)
  show ?thesis using r e main_checkpoint_last [OF r e] by blast
qed

text \<open>
  C14: a completed run writes one CSV row per epoch, in the order of
  \<open>range(args.epochs)\<close> (line 198), and, when every test batch has as many images
  as labels, each row's train and test accuracies lie in [0, 1].
\<close>

theorem main_csv_rows:
  assumes "batch_consistent net c h w" and "\<forall>e. test_batches_ok (tel e)"
    and "main a net p trl tel = Inr rs"
  shows "map fst (csv_rows rs) = [0..<nat (epochs (fst (configure a)))] \<and>
         (\<forall>r\<in>set (csv_rows rs). 0 \<le> fst (snd r) \<and> fst (snd r) \<le> 1 \<and> 0 \<le> snd (snd r) \<and> snd (snd r) \<le> 1)"
  using run_epochs_rows [OF assms(3) [unfolded main_run], where c = c and h = h and w = w] assms(1,2)
  by auto

theorem main_csv_rows_witness:
  "\<exists>rs. main default_args demo_net [0] demo_loader demo_loader = Inr rs \<and>
     map fst (csv_rows rs) = [0..<nat (epochs (fst (configure default_args)))] \<and>
     (\<forall>r\<in>set (csv_rows rs). 0 \<le> fst (snd r) \<and> fst (snd r) \<le> 1 \<and> 0 \<le> snd (snd r) \<and> snd (snd r) \<le> 1)"
proof -
  obtain rs where r: "main default_args demo_net [0] demo_loader demo_loader = Inr rs"
    using demo_main_runs by blast
  have bc: "batch_consistent demo_net 0 2 2"
    by (simp add: batch_consistent_def is_tensor_def is_mat_def list_all_iff)
  have ok: "\<forall>e. test_batches_ok (demo_loader e)" by (simp add: test_batches_ok_def)
  show ?thesis using r main_csv_rows [OF bc ok r] by blast
qed

text \<open>
  C13: the learning rate after a completed run is the MultiStepLR closed form: the
  initial \<open>args.learning_rate\<close> times \<open>gamma = 0.2\<close> to the number of milestones
  [60, 120, 160] reached by the number of epochs run (one \<open>scheduler.step()\<close> per
  epoch, line 205).
\<close>

theorem main_lr_schedule:
  assumes "main a net p trl tel = Inr rs"
  shows "sched_epoch rs = nat (epochs (fst (configure a))) \<and>
         lr (ropt rs) = learning_rate a *
           sched_gamma ^ length (filter (\<lambda>m. m \<le> nat (epochs (fst (configure a)))) milestones)"
proof -
  have "filter (\<lambda>m. 0 < m \<and> m \<le> n) milestones = filter (\<lambda>m. m \<le> n) milestones" for n
    by (simp add: milestones_def)
  then show ?thesis
    using run_epochs_sched [OF assms [unfolded main_run]] by (simp add: sgd_init_def)
qed

theorem main_lr_schedule_witness:
  "\<exists>rs. main default_args demo_net [0] demo_loader demo_loader = Inr rs \<and>
     sched_epoch rs = nat (epochs (fst (configure default_args))) \<and>
     lr (ropt rs) = learning_rate default_args *
       sched_gamma ^ length (filter (\<lambda>m. m \<le> nat (epochs (fst (configure default_args)))) milestones)"
proof -
  obtain rs where r: "main default_args demo_net [0] demo_loader demo_loader = Inr rs"
    using demo_main_runs by blast
  show ?thesis using r main_lr_schedule [OF r] by blast
qed

text \<open>
  C15: the \<open>--threshold\<close> option has no effect: the whole run is the same for every
  value of \<open>args.threshold\<close>, because \<open>train\<close> passes the constant 0.7 to
  \<open>get_gutout\<close> (line 142).
\<close>

theorem main_ignores_threshold:
  "main (a\<lparr>threshold := t\<rparr>) net p trl tel = main a net p trl tel"
  by (simp add: main_run configure_def test_id_def Let_def)

text \<open>
  C16: the classifier head has \<open>num_classes = 10\<close> outputs whatever the dataset
  (line 95); when the first training batch holds a label outside it (CIFAR-100 labels
  go up to 99), the run fails with \<open>IndexError\<close> in the loss of the first step.
\<close>

theorem main_label_out_of_range:
  assumes "batch_consistent net c h w" and "class_count net num_classes"
    and "0 < epochs (fst (configure a))" and "trl 0 = (images, labels) # bs"
    and "length images = length labels" and "y \<in> set labels" and "num_classes \<le> y"
  shows "main a net p trl tel = Inl IndexError"
proof -
  have "[0..<nat (epochs (fst (configure a)))] = 0 # [1..<nat (epochs (fst (configure a)))]"
    using assms(3) by (simp add: upt_conv_Cons)
  with train_step_bad_label [OF assms(1,2,5,6,7)] assms(4) show ?thesis
    by (simp add: main_run run_epoch_def train_def Let_def)
qed

theorem main_label_out_of_range_witness:
  "main (default_args\<lparr>dataset := ''cifar100''\<rparr>) demo_net10 [0]
     (\<lambda>_. [([[[[1, 2], [3, 4]]]], [57])]) demo_loader = Inl IndexError"
  by (rule main_label_out_of_range [where c = 0 and h = 2 and w = 2 and y = 57
        and images = "[[[[1, 2], [3, 4]]]]" and labels = "[57]" and bs = "[]"])
     (simp_all add: batch_consistent_def class_count_def is_tensor_def is_mat_def list_all_iff
       configure_def default_args_def num_classes_def)

text \<open>
  C20: the parser's default \<open>--smoke_test 1\<close> (line 46) makes a run with the default
  options a smoke test: it runs 3 epochs, although the default of \<open>--epochs\<close> is 20
  (line 48, "number of epochs to train (default: 20)").
\<close>

theorem main_default_is_smoke:
  assumes "main default_args net p trl tel = Inr rs"
  shows "length (csv_rows rs) = 3 \<and> epochs default_args = 20"
proof -
  have "fst (configure default_args) = default_args\<lparr>batch_size := 2, epochs := 3, cuda := False\<rparr>"
    by (simp add: configure_def default_args_def store_true_def)
  then show ?thesis
    using run_epochs_rows [OF assms [unfolded main_run], where c = 0 and h = 0 and w = 0]
    by (auto simp: default_args_def dest: arg_cong [where f = length])
qed

theorem main_default_is_smoke_witness:
  "\<exists>rs. main default_args demo_net [0] demo_loader demo_loader = Inr rs \<and>
     length (csv_rows rs) = 3 \<and> epochs default_args = 20"
proof -
  obtain rs where r: "main default_args demo_net [0] demo_loader demo_loader = Inr rs"
    using demo_main_runs by blast
  show ?thesis using r main_default_is_smoke [OF r] by blast
qed

text \<open>
  C21: when every test batch has as many images as labels, every state the epoch loop
  reaches from the state \<open>main\<close> builds satisfies \<open>run_inv\<close>: \<open>best_acc\<close> is -1, one CSV row per completed epoch with accuracies in
  [0, 1], the scheduler counter equals the number of epochs, the learning rate is the
  MultiStepLR closed form, and once an epoch has completed the only checkpoint holds the
  current parameters.
\<close>

theorem run_reach_inv:
  assumes "batch_consistent net c h w" and "\<forall>e. test_batches_ok (tel e)"
    and "run_reach net gc tid trl tel mx
             \<lparr>rmodel = model, ropt = sgd_init lr0, sched_epoch = 0, best_acc = -1, csv_rows = [],
              checkpoints = Map.empty\<rparr> rs"
  shows "run_inv tid lr0 rs"
  using assms(3)
proof (induction rule: run_reach.induct)
  case reach_init
  then show ?case by (simp add: run_inv_def sgd_init_def milestones_def)
next
  case (reach_epoch rs epoch rs')
  from reach_epoch.hyps(2) reach_epoch.IH assms(1) show ?case
    by (rule run_epoch_inv) (use assms(2) in blast)
qed

theorem run_reach_inv_witness:
  "\<exists>rs. run_reach demo_net (batch_grad_cam demo_net) ''cifar10_resnet18'' demo_loader demo_loader
          (Some 2) \<lparr>rmodel = demo_model, ropt = sgd_init (1 / 10), sched_epoch = 0, best_acc = -1,
                    csv_rows = [], checkpoints = Map.empty\<rparr> rs \<and>
        csv_rows rs \<noteq> [] \<and> run_inv ''cifar10_resnet18'' (1 / 10) rs"
proof -
  let ?rs0 = "\<lparr>rmodel = demo_model, ropt = sgd_init (1 / 10), sched_epoch = 0, best_acc = -1,
               csv_rows = [], checkpoints = Map.empty\<rparr>"
  obtain rs where e: "run_epoch demo_net (batch_grad_cam demo_net) ''cifar10_resnet18'' demo_loader
                        demo_loader (Some 2) ?rs0 0 = Inr rs"
    by (simp add: demo_eval_simps)
  have r: "run_reach demo_net (batch_grad_cam demo_net) ''cifar10_resnet18'' demo_loader demo_loader
             (Some 2) ?rs0 rs"
    by (rule reach_epoch [OF reach_init e])
  have "csv_rows rs \<noteq> []" using run_epoch_Inr [OF e, where c = 0 and h = 0 and w = 0] by auto
  moreover have bc: "batch_consistent demo_net 0 2 2"
    by (simp add: batch_consistent_def is_tensor_def is_mat_def list_all_iff)
  moreover have ok: "\<forall>e. test_batches_ok (demo_loader e)" by (simp add: test_batches_ok_def)
  ultimately show ?thesis using r run_reach_inv [OF bc ok r] by blast
qed

text \<open>
  C22: progress.  On a network whose head has \<open>num_classes\<close> outputs and loaders that
  satisfy \<open>loaders_ok\<close>, the run completes every epoch and \<open>main\<close> returns a final
  state, for every choice of options (with or without the smoke-test limit).
\<close>

theorem main_completes:
  assumes "batch_consistent net c h w" and "class_count net num_classes"
    and "loaders_ok num_classes trl tel"
  shows "\<exists>rs. main a net p trl tel = Inr rs"
  unfolding main_run by (rule run_epochs_ok [OF assms])

theorem main_completes_witness:
  "\<exists>rs. main default_args demo_net10 [0] demo_loader demo_loader = Inr rs"
  by (rule main_completes [where c = 0 and h = 2 and w = 2])
     (simp_all add: batch_consistent_def class_count_def is_tensor_def is_mat_def list_all_iff
       loaders_ok_def batch_ok_def test_batches_ok_def num_classes_def)

end
