(* ===== verification/Artifacts.thy ===== *)
theory Artifacts
  imports Driver
begin

text \<open>
  The files a run writes: the CSV log \<open>test_id + '.csv'\<close> (lines 114-116) and the
  checkpoint \<open>'checkpoints/' + test_id + '.pth'\<close> (line 210), both named by
  \<open>test_id = args.dataset + '_' + args.model\<close>.  The proof helper
  \<open>split_test_id\<close> (not a function of the script) splits a test id at its first
  underscore; since no dataset name contains one, the test id determines the pair, so two
  runs with different choices never write the same checkpoint or the same log.
\<close>

definition csv_filename :: "string \<Rightarrow> string" where
  "csv_filename tid = tid @ ''.csv''"

definition split_test_id :: "string \<Rightarrow> string \<times> string" where
  "split_test_id s = (takeWhile (\<lambda>c. c \<noteq> CHR ''_'') s, drop 1 (dropWhile (\<lambda>c. c \<noteq> CHR ''_'') s))"

lemma split_test_id_append:
  assumes "CHR ''_'' \<notin> set d"
  shows "split_test_id (d @ CHR ''_'' # m) = (d, m)"
proof -
  have h: "\<And>x. x \<in> set d \<Longrightarrow> x \<noteq> CHR ''_''" using assms by auto
  show ?thesis
    by (simp add: split_test_id_def takeWhile_append2 [OF h] dropWhile_append2 [OF h])
qed

lemma valid_choices_no_sep: "valid_choices a \<Longrightarrow> CHR ''_'' \<notin> set (dataset a)"
  by (auto simp: valid_choices_def dataset_options_def)

lemma test_id_split: "valid_choices a \<Longrightarrow> split_test_id (test_id a) = (dataset a, model_name a)"
  by (simp add: test_id_def split_test_id_append valid_choices_no_sep)

text \<open>
  C24: runs with different valid choices of dataset or model write different checkpoint
  files and different CSV logs, so one never overwrites the other's.
\<close>

theorem output_files_distinct:
  assumes "valid_choices a" and "valid_choices b"
    and "(dataset a, model_name a) \<noteq> (dataset b, model_name b)"
  shows "checkpoint_path (test_id a) \<noteq> checkpoint_path (test_id b) \<and>
         csv_filename (test_id a) \<noteq> csv_filename (test_id b)"
proof -
  have "test_id a \<noteq> test_id b"
    using test_id_split [OF assms(1)] test_id_split [OF assms(2)] assms(3) by metis
  then show ?thesis by (simp add: checkpoint_path_def csv_filename_def)
qed

theorem output_files_distinct_witness:
  "valid_choices default_args \<and> valid_choices (default_args\<lparr>dataset := ''cifar100''\<rparr>) \<and>
   (dataset default_args, model_name default_args) \<noteq>
     (dataset (default_args\<lparr>dataset := ''cifar100''\<rparr>), model_name (default_args\<lparr>dataset := ''cifar100''\<rparr>)) \<and>
   checkpoint_path (test_id default_args) \<noteq> checkpoint_path (test_id (default_args\<lparr>dataset := ''cifar100''\<rparr>)) \<and>
   csv_filename (test_id default_args) \<noteq> csv_filename (test_id (default_args\<lparr>dataset := ''cifar100''\<rparr>))"
proof -
  have v: "valid_choices default_args" "valid_choices (default_args\<lparr>dataset := ''cifar100''\<rparr>)"
    by (simp_all add: valid_choices_def default_args_def dataset_options_def model_options_def)
  have d: "(dataset default_args, model_name default_args) \<noteq>
     (dataset (default_args\<lparr>dataset := ''cifar100''\<rparr>), model_name (default_args\<lparr>dataset := ''cifar100''\<rparr>))"
    by (simp add: default_args_def)
  show ?thesis using v d output_files_distinct [OF v d] by blast
qed

end
