(* ===== verification/Spec2Isabelle.thy ===== *)
theory Spec2Isabelle
  imports Artifacts
begin

text \<open>
  \<^bold>\<open>Verification development of the Gutout training script.\<close>

  The program is \<open>src/src/training/resnet_train_w_gutout.py\<close>: it parses its options
  (lines 34-83), builds a ResNet-18 classifier, an SGD optimizer with a MultiStepLR
  schedule and a Grad-CAM object on the model (lines 95-116, 195), and trains for
  \<open>args.epochs\<close> epochs (lines 198-210).  Each training step (\<open>train()\<close>, lines
  126-166) first augments the batch with Gutout (\<open>get_gutout\<close>, lines 119-124): the
  Grad-CAM object computes a saliency map per image on the model being trained, the map
  is thresholded into a binary mask and the masked pixels are zeroed.  Then the step
  zeroes the gradients, runs the forward pass, the cross-entropy loss, the backward pass
  and the optimizer step.  After each epoch \<open>test()\<close> (lines 168-189) evaluates the model,
  the scheduler steps, a CSV row is written and the model is saved when
  \<open>is_best\<close>.  The Grad-CAM module (\<open>src/gutout/generate_gutout_mask.py\<close>:
  \<open>BatchGradCam\<close>, \<open>generate_batch_gutout_mask\<close>, \<open>apply_batch_gutout_mask\<close>) is
  imported but not part of the sources; it is modelled from the specification.

  \<^bold>\<open>Theories, bottom up.\<close>
  \<^item> \<open>Prelude\<close>: tensors as nested lists of reals, the element-wise combinators
    \<open>map2d\<close>/\<open>zip2d\<close>, shape predicates, the reductions \<open>list_max\<close>, \<open>mean\<close>,
    \<open>argmax\<close> (\<open>torch.max(_, 1)[1]\<close>, line 154) and \<open>count_matches\<close>
    (\<open>(pred == labels).sum()\<close> on equal shapes, line 156), the NaN-aware float
    \<open>pyfloat\<close> and the exception type \<open>py_error\<close>.
  \<^item> \<open>Saliency\<close> (spec section 4.2): channel weights as spatial means of the tap gradient,
    the weighted channel sum and the ReLU; lemmas give each saliency entry as the closed
    weighted sum \<open>cam_entry\<close>, non-negativity and the dead-layer case.
  \<^item> \<open>Resize\<close> (spec 4.3): the cv2 bilinear resize with half-pixel centres and
    clamped source indices; shape, range and identity-on-uniform-maps lemmas.
  \<^item> \<open>Mask\<close> (spec 4.3, 4.4): normalisation by the maximum with the zero guard, the
    threshold with the suppression policy (\<open>gutout_policy\<close>: the salient region is cut),
    mask application \<open>p \<cdot> (1 - m)\<close>; shape, range and monotonicity lemmas.
  \<^item> \<open>Network\<close>: the classifier as an interface (\<open>network\<close>: forward pass, tapped
    activation and gradient, parameter gradients of the Grad-CAM score and of the loss,
    each a function of the mode and the parameters) over the mutable model state
    \<open>model_state\<close> (parameters, \<open>.grad\<close>, \<open>training\<close> flag); \<open>accumulate_grad\<close> is
    \<open>backward()\<close>, \<open>zero_grad\<close> is \<open>optimizer.zero_grad()\<close> (PyTorch 2: gradients set to
    \<open>None\<close>), \<open>set_mode\<close> is \<open>model.train()\<close>/\<open>model.eval()\<close>.  The hypotheses
    \<open>batch_consistent\<close>, \<open>class_count\<close> and \<open>example_separable\<close> state what the
    properties need of a network.
  \<^item> \<open>GradCam\<close> (spec 4.1, 4.5): \<open>batch_grad_cam net\<close>, the callable \<open>grad_cam(images)\<close>
    of line 120: target classes from the forward pass, one map per image, and the
    score's backward pass left in the model's \<open>.grad\<close>.
  \<^item> \<open>Gutout\<close>: \<open>get_gutout\<close> (lines 119-124) and the claims on it
    (C1, C5-C9, C27); \<open>cam_eval_simps\<close> collects the definitions that evaluate the
    Grad-CAM pipeline on a concrete batch.
  \<^item> \<open>Config\<close>: the \<open>args\<close> record with the parser's defaults (\<open>default_args\<close>,
    lines 37-73) and \<open>configure\<close> (the smoke-test override and \<open>args.cuda\<close>,
    lines 77-83), \<open>num_classes\<close> (line 95) and \<open>test_id\<close> (line 114).
  \<^item> \<open>Optim\<close>: \<open>cross_entropy\<close> (line 106/147, with PyTorch's \<open>ValueError\<close> and
    \<open>IndexError\<close>, and NaN, the value \<open>None\<close> of \<open>pyfloat\<close>, on an empty batch),
    \<open>sgd_step\<close> (Nesterov SGD with weight decay, lines 103-104, 149) and
    \<open>sched_step\<close> (MultiStepLR, lines 105, 205); claims C18 (the loss is non-negative,
    NaN exactly on an empty batch) and C19 (the first Nesterov step in closed form).
  \<^item> \<open>Train\<close>: \<open>train_step\<close>, \<open>train_loop\<close>, \<open>train\<close>, \<open>eq_count\<close>, \<open>test_loop\<close>,
    \<open>test\<close> and claims C2, C4, C10-C12, C17, C23, C25, C26 and C28-C31, with the loop
    invariant \<open>acc_inv\<close> (correct counts never exceed the examples seen) proved
    preserved by every step, the abstract specification \<open>accuracy_spec\<close> of \<open>test\<close>
    that the loop refines on loaders whose batches have as many images as labels
    (\<open>test_batches_ok\<close>), and the plain training step \<open>plain_train_step\<close> (lines
    144-161 without Gutout) that the training step reduces to when Gutout cuts nothing.
  \<^item> \<open>Driver\<close>: one epoch \<open>run_epoch\<close> (lines 199-210), the epoch loop
    \<open>run_epochs\<close> and \<open>main\<close> (the module's top level from line 75), over the state
    \<open>run_state\<close> (model, optimizer, scheduler counter, \<open>best_acc\<close>, CSV rows, checkpoint
    files); the epoch loop is also the inductive step relation \<open>run_reach\<close>, with its
    invariant \<open>run_inv\<close> proved by rule induction; claims C3, C13-C16 and C20-C22.
  \<^item> \<open>Artifacts\<close>: the names of the files a run writes, \<open>csv_filename\<close> (line 115) and
    \<open>checkpoint_path\<close> (line 210); claim C24.

  \<^bold>\<open>Correspondence.\<close>  Python's mutable objects are explicit state: the model is
  threaded through \<open>get_gutout\<close>, the loops and the epochs as a \<open>model_state\<close> value,
  the optimizer as \<open>sgd_state\<close>.  The exceptions the modelled lines raise from their own
  checks and from the PyTorch calls they make on the modelled data are \<open>Inl\<close> values of
  \<open>py_error + _\<close>: \<open>IndexError\<close> and \<open>ValueError\<close> of the loss,
  \<open>RuntimeError\<close> of \<open>pred == labels\<close> (line 183) on shapes that do not broadcast,
  \<open>ZeroDivisionError\<close> of \<open>correct / total\<close> and \<open>UnboundLocalError\<close> of
  \<open>return accuracy\<close> after an empty loop.  Exceptions of the unmodelled parts (the
  network's own forward pass, data loading, CUDA; on a GPU an out-of-range label is a
  device-side assert rather than \<open>IndexError\<close>) are not represented.  Line 183 follows
  PyTorch's broadcasting: a batch with one label and several images is compared
  element by element against that label.  A float that may be NaN is a \<open>pyfloat\<close>
  (\<open>real option\<close>); other floats are idealised as reals.  Loops are structural
  recursion over the loader's batch list, with the \<open>break\<close> tests of lines 163 and 186
  written as the code has them; no fuel is needed since every loop runs over a finite
  list.  Data loaders are functions from the epoch to its list of batches.  The map
  entry of \<open>main\<close> spans lines 75-213 of the module's top level; of these it
  translates the option handling, the construction of model, optimizer, scheduler and
  Grad-CAM object and the epoch loop, and leaves out the lines listed under
  \<^bold>\<open>Not modelled\<close>.

  \<^bold>\<open>What the claims show.\<close>  C1: the augmented pixel is the input pixel times one
  minus its mask bit.  C2: no gradient of the Grad-CAM pass or from before the step
  reaches the optimizer (\<open>zero_grad\<close> runs after \<open>get_gutout\<close>).  C3: \<open>best_acc\<close> is
  never updated, so the checkpoint is rewritten every epoch and holds the last model.
  C4 and C10: the batches each loop consumes under \<open>max_num_batches = k\<close> (train:
  \<open>k + 1\<close>, test: \<open>max 1 k\<close>), the train loop returning on well-formed batches.  C5-C8:
  the threshold-1 identity, shapes, the dead-layer case, threshold monotonicity.  C9:
  cross-example isolation on separable networks.  C11-C12: accuracies in [0, 1] (the
  test accuracy on batches with as many images as labels).  C13-C14: the learning-rate
  schedule and the CSV log of a completed run.  C15: \<open>--threshold\<close> has no effect.
  C16-C17: error paths (CIFAR-100 labels against a 10-class head, a bad label in
  \<open>train\<close>).  C18-C19: loss and optimizer step.  C20: the default options run a 3-epoch
  smoke test.  C21: the invariant of every state the epoch loop reaches.  C22:
  progress: on well-formed loaders and a 10-class head every run completes.  C23:
  \<open>test\<close> refines its abstract specification.  C24: runs never share output files.
  C25: mismatched training batch sizes raise \<open>ValueError\<close>.  C26: an empty first
  training batch raises \<open>ZeroDivisionError\<close>.  C27: Gutout with a threshold below 1
  always cuts the peak of a non-degenerate map.  C28: with all-zero maps the step is the
  plain step on the original batch.  C29: without a batch limit the training loop
  trains on every batch.  C30: mismatched test batch sizes that do not broadcast raise
  \<open>RuntimeError\<close>.  C31: a test batch with one label and several images is
  broadcast, and the accuracy can exceed 1.

  \<^bold>\<open>Not modelled.\<close>  The ResNet-18 itself (an abstract \<open>network\<close>, its forward and
  backward passes are parameters), BatchNorm running statistics, dataset download and
  loading (\<open>get_dataloaders\<close>), \<open>Cutout\<close> and data augmentation (disabled by default, not
  called by the loops), random seeds, CUDA placement, \<open>tqdm\<close> output, the CSV file
  format and \<open>torch.save\<close>'s serialisation (a checkpoint is the saved parameter list).
  Floating point is idealised as real arithmetic (rounding, overflow and infinities are not modelled; NaN only where a loss can be one).  \<open>src/models/resnet.py\<close>,
  \<open>src/utils/data_utils.py\<close>, \<open>src/utils/cutout.py\<close> and \<open>src/utils/misc.py\<close> are
  not among the sources, so the classifier stays an interface (its state and the calls
  the script makes on it are modelled) and the loaders are inputs of \<open>main\<close>.  The
  remaining lines of the script are imports and \<open>sys.path\<close> set-up (lines 1-33),
  \<open>cudnn.benchmark\<close>, the seeds, \<open>print(args)\<close> and the moves to CUDA (lines 84-91,
  108-111): none of them changes a value the modelled code computes.
\<close>

end
